theory Spec2Isabelle
  imports Complex_Main "HOL-Library.Char_ord" "HOL-Library.List_Lexorder"
begin

section \<open>Data model (prisma/schema.prisma)\<close>

text \<open>
  The tables of the schema that the image-generation controller reads and writes.
  Identifiers are UUID strings, \<open>DateTime\<close> values are points on a discrete clock
  (\<open>nat\<close>), \<open>Int\<close> columns are integers (the numbers of the handlers are not
  bounded by the 32 bits of the column; a write outside that range rejects, see
  \<open>prisma_Int\<close>) and the \<open>Decimal(10,4)\<close> column
  \<open>costPerRequest\<close> is an exact rational. \<open>toNumber()\<close> turns the decimal into a
  double; for a decimal with four places and \<open>num_outputs\<close> between 1 and 4 the double
  product is an integer exactly when the exact product is, and compares with an integer
  balance as the exact product does, so the model computes with the exact value.
\<close>

datatype RequestStatus = pending | processing | completed | failed

datatype ImageFormat = jpeg | png | webp

datatype CreditTransactionType = purchase | consumption | refund | bonus

record ApiProvider =
  ap_id :: int
  ap_name :: string

record AiModel =
  am_id :: int
  providerId :: int
  modelName :: string
  apiIdentifier :: string
  isActive :: bool
  costPerRequest :: "rat option"

record GenerationRequest =
  gr_id :: string
  gr_userId :: string
  modelId :: int
  prompt :: string
  negativePrompt :: "string option"
  aspectRatio :: "string option"
  stylePreset :: "string option"
  seed :: "int option"
  numOutputs :: int
  quality :: "string option"
  status :: RequestStatus
  apiSpecificParameters :: "string option"
  errorMessage :: "string option"
  creditsCharged :: int
  requestedAt :: nat
  processingStartedAt :: "nat option"
  completedAt :: "nat option"

record GeneratedImage =
  gi_id :: string
  gi_requestId :: string
  gi_userId :: string
  imageUrl :: string
  thumbnailUrl :: "string option"
  width :: "int option"
  height :: "int option"
  format :: "ImageFormat option"
  isFavorited :: bool

record UserCredit =
  uc_id :: string
  uc_userId :: string
  uc_requestId :: "string option"
  transactionType :: CreditTransactionType
  amount :: int
  balanceAfter :: int
  uc_notes :: "string option"
  transactionTime :: nat

text \<open>
  The database: one list of rows per table, under the table's name, in the order the rows
  were inserted.
\<close>

record store =
  api_providers :: "ApiProvider list"
  ai_models :: "AiModel list"
  generation_requests :: "GenerationRequest list"
  generated_images :: "GeneratedImage list"
  user_credits :: "UserCredit list"

section \<open>The environment of one handler call\<close>

text \<open>
  What a handler takes from outside the program:
  \<^item> \<open>requestUuid\<close> and \<open>creditUuid\<close>, the values of the column default \<open>uuid()\<close>
    for a new request and a new ledger entry;
  \<^item> \<open>requestTime\<close>, the clock reading at the write to the request table
    (\<open>requestedAt\<close> of a new request, \<open>new Date()\<close> of a cancellation), and
    \<open>creditTime\<close>, the clock reading at the ledger write (\<open>transactionTime\<close>);
  \<^item> \<open>tie\<close>, the row the database returns first among rows that are equal under the
    \<open>orderBy\<close> of a query: the controller orders the ledger by \<open>transactionTime\<close>
    alone, so the order of rows with the same time is the database's choice;
  \<^item> \<open>rejects\<close>, which of the awaited Prisma calls reject for a reason outside the
    program (a lost connection, a timeout, a violated constraint). A call also rejects
    when a number it is given does not fit its column; that depends on the number and is
    part of the call. A rejected call throws, and the handler's \<open>catch\<close> answers 500.
\<close>

datatype store_call =
    AiModel_findFirst
  | UserCredit_findMany
  | GenerationRequest_create
  | UserCredit_create
  | GenerationRequest_findFirst
  | GenerationRequest_update

record env =
  requestUuid :: string
  creditUuid :: string
  requestTime :: nat
  creditTime :: nat
  tie :: "UserCredit list \<Rightarrow> nat"
  rejects :: "store_call \<Rightarrow> bool"

section \<open>HTTP requests and responses\<close>

text \<open>
  The JSON body of a submit. A JSON number is a rational: \<open>model_id\<close> and \<open>seed\<close>
  are \<open>z.number()\<close> in the schema and need not be integers.
\<close>

record request_body =
  b_model_id :: "rat option"
  b_prompt :: "string option"
  b_negative_prompt :: "string option"
  b_aspect_ratio :: "string option"
  b_num_outputs :: "rat option"
  b_style_preset :: "string option"
  b_seed :: "rat option"
  b_quality :: "string option"
  b_api_specific_parameters :: "string option"

record generation_data =
  model_id :: rat
  prompt_text :: string
  negative_prompt :: "string option"
  aspect_ratio :: "string option"
  num_outputs :: int
  style_preset :: "string option"
  seed_value :: "rat option"
  quality_name :: "string option"
  api_specific_parameters :: "string option"

record http_request =
  user :: "string option"
  body :: request_body
  request_id :: string

record image_detail =
  image_id :: string
  url :: string
  thumbnail :: "string option"
  img_width :: "int option"
  img_height :: "int option"
  img_format :: "ImageFormat option"
  is_favorited :: bool

record request_detail =
  d_request_id :: string
  d_status :: RequestStatus
  d_prompt :: string
  d_negative_prompt :: "string option"
  d_aspect_ratio :: "string option"
  d_style_preset :: "string option"
  d_seed :: "int option"
  d_num_outputs :: int
  d_quality :: "string option"
  d_model_id :: int
  d_model_name :: "string option"
  d_model_provider :: "string option"
  d_model_api_identifier :: "string option"
  d_created_at :: nat
  d_processing_started_at :: "nat option"
  d_completed_at :: "nat option"
  d_credits_charged :: int
  d_error_message :: "string option"
  d_images :: "image_detail list"
  d_api_specific_parameters :: "string option"

text \<open>
  The JSON bodies the handlers send: a failure message, the validation errors, the 402
  body with \<open>required\<close> and \<open>available\<close>, the 202 body with \<open>request_id\<close>, the
  detail of a request, and the 200 body of a cancellation with \<open>refunded_credits\<close>.
\<close>

datatype body =
    Message string
  | InvalidParameters
  | InsufficientCredits rat int
  | Accepted string
  | Detail request_detail
  | Cancelled int

type_synonym response = "nat \<times> body"

section \<open>Prisma queries\<close>

text \<open>
  A number given for an \<open>Int\<close> field is cut to an integer by the query engine, toward
  zero: 0.5 becomes 0, -1.5 becomes -1, 9.25 becomes 9. The call rejects when that integer
  does not fit the 32 bits of the column.
\<close>

definition toward_zero :: "rat \<Rightarrow> int" where
  "toward_zero r = (if 0 \<le> r then \<lfloor>r\<rfloor> else \<lceil>r\<rceil>)"

definition fits_Int :: "int \<Rightarrow> bool" where
  "fits_Int n = (- 2147483648 \<le> n \<and> n \<le> 2147483647)"

definition prisma_Int :: "rat \<Rightarrow> int option" where
  "prisma_Int r = (if fits_Int (toward_zero r) then Some (toward_zero r) else None)"

text \<open>
  \<open>aiModel.findFirst({where: {id, isActive: true}})\<close>. The \<open>id\<close> is an \<open>Int\<close>
  field: there is no row to find when the number given does not fit it, and the handler
  treats that call as rejected.
\<close>

definition aiModel_findFirst :: "AiModel list \<Rightarrow> rat \<Rightarrow> AiModel option" where
  "aiModel_findFirst table i =
     (case prisma_Int i of
        None \<Rightarrow> None
      | Some n \<Rightarrow> find (\<lambda>m. am_id m = n \<and> isActive m) table)"

text \<open>
  \<open>userCredit.findMany({where: {userId}, orderBy: {transactionTime: 'desc'}, take: 1})\<close>:
  the user's rows with the greatest transaction time (\<open>latest_entries\<close>) come first,
  in an order the database chooses; the query takes the first of them.
\<close>

definition latest_entries :: "UserCredit list \<Rightarrow> UserCredit list" where
  "latest_entries rows =
     filter (\<lambda>c. list_all (\<lambda>d. transactionTime d \<le> transactionTime c) rows) rows"

definition userCredit_findMany :: "(UserCredit list \<Rightarrow> nat) \<Rightarrow> UserCredit list \<Rightarrow> string \<Rightarrow> UserCredit list" where
  "userCredit_findMany pick table userId =
     (let rows = filter (\<lambda>c. uc_userId c = userId) table;
          newest = latest_entries rows
      in if newest = [] then [] else [newest ! (pick newest mod length newest)])"

text \<open>
  \<open>userCredits.length > 0 ? userCredits[0].balanceAfter : 0\<close>, the balance both
  \<open>createGenerationRequest\<close> and \<open>cancelGenerationRequest\<close> compute from the query above.
\<close>

definition currentBalance :: "(UserCredit list \<Rightarrow> nat) \<Rightarrow> UserCredit list \<Rightarrow> string \<Rightarrow> int" where
  "currentBalance pick table userId =
     (case userCredit_findMany pick table userId of
        [] \<Rightarrow> 0
      | c # _ \<Rightarrow> balanceAfter c)"

text \<open>
  \<open>data.num_outputs * (model.costPerRequest?.toNumber() || 1)\<close>: a missing price and
  the price 0 are both falsy, and \<open>||\<close> replaces them by 1.
\<close>

definition requiredCredits :: "int \<Rightarrow> AiModel \<Rightarrow> rat" where
  "requiredCredits n m =
     of_int n * (case costPerRequest m of
                   None \<Rightarrow> 1
                 | Some d \<Rightarrow> if d = 0 then 1 else d)"

text \<open>
  \<open>data.seed ? BigInt(data.seed) : undefined\<close>, evaluated while the argument of
  \<open>generationRequest.create\<close> is built: no seed and the seed 0 are falsy and give
  \<open>undefined\<close>, a whole number gives that integer, and for any other number
  \<open>BigInt\<close> throws a \<open>RangeError\<close> (the result \<open>None\<close>), which the handler's
  \<open>catch\<close> turns into the answer 500 before any write.
\<close>

definition data_seed :: "generation_data \<Rightarrow> int option option" where
  "data_seed data =
     (case seed_value data of
        None \<Rightarrow> Some None
      | Some s \<Rightarrow>
          if s = 0 then Some None
          else if of_int \<lfloor>s\<rfloor> = s then Some (Some \<lfloor>s\<rfloor>)
          else None)"

text \<open>The \<open>BigInt\<close> column \<open>seed\<close> holds 64 bits.\<close>

definition fits_BigInt :: "int option \<Rightarrow> bool" where
  "fits_BigInt s =
     (case s of
        None \<Rightarrow> True
      | Some n \<Rightarrow> - 9223372036854775808 \<le> n \<and> n \<le> 9223372036854775807)"

text \<open>
  \<open>generationRequest.create\<close> as \<open>createGenerationRequest\<close> calls it. The new row
  gets its \<open>id\<close> and \<open>requestedAt\<close> from the column defaults, \<open>status\<close> is
  \<open>pending\<close>, and \<open>creditsCharged\<close> is \<open>Number(requiredCredits)\<close> as the
  \<open>Int\<close> column takes it.
\<close>

definition new_GenerationRequest :: "env \<Rightarrow> string \<Rightarrow> generation_data \<Rightarrow> int option \<Rightarrow> int \<Rightarrow> GenerationRequest" where
  "new_GenerationRequest env userId data s charged =
     \<lparr> gr_id = requestUuid env,
       gr_userId = userId,
       modelId = toward_zero (model_id data),
       prompt = prompt_text data,
       negativePrompt = negative_prompt data,
       aspectRatio = aspect_ratio data,
       stylePreset = style_preset data,
       seed = s,
       numOutputs = num_outputs data,
       quality = quality_name data,
       status = pending,
       apiSpecificParameters = api_specific_parameters data,
       errorMessage = None,
       creditsCharged = charged,
       requestedAt = requestTime env,
       processingStartedAt = None,
       completedAt = None \<rparr>"

definition generationRequest_create :: "env \<Rightarrow> store \<Rightarrow> string \<Rightarrow> generation_data \<Rightarrow> int option \<Rightarrow> rat \<Rightarrow> (GenerationRequest \<times> store) option" where
  "generationRequest_create env st userId data s charged =
     (if rejects env GenerationRequest_create \<or> \<not> fits_BigInt s then None
      else case prisma_Int charged of
        None \<Rightarrow> None
      | Some n \<Rightarrow>
          let row = new_GenerationRequest env userId data s n
          in Some (row, st\<lparr> generation_requests := generation_requests st @ [row] \<rparr>))"

text \<open>
  \<open>userCredit.create\<close>: appends one ledger row; \<open>amount\<close> and \<open>balanceAfter\<close> are
  \<open>Int\<close> fields, each taken on its own, \<open>id\<close> and \<open>transactionTime\<close> come from
  the column defaults.
\<close>

definition new_UserCredit :: "env \<Rightarrow> string \<Rightarrow> string \<Rightarrow> CreditTransactionType \<Rightarrow> int \<Rightarrow> int \<Rightarrow> string \<Rightarrow> UserCredit" where
  "new_UserCredit env userId requestId ttype amt bal note =
     \<lparr> uc_id = creditUuid env,
       uc_userId = userId,
       uc_requestId = Some requestId,
       transactionType = ttype,
       amount = amt,
       balanceAfter = bal,
       uc_notes = Some note,
       transactionTime = creditTime env \<rparr>"

definition userCredit_create :: "env \<Rightarrow> store \<Rightarrow> string \<Rightarrow> string \<Rightarrow> CreditTransactionType \<Rightarrow> rat \<Rightarrow> rat \<Rightarrow> string \<Rightarrow> store option" where
  "userCredit_create env st userId requestId ttype amt bal note =
     (if rejects env UserCredit_create then None
      else case (prisma_Int amt, prisma_Int bal) of
        (Some a, Some b) \<Rightarrow>
          Some (st\<lparr> user_credits := user_credits st @
                  [new_UserCredit env userId requestId ttype a b note] \<rparr>)
      | _ \<Rightarrow> None)"

text \<open>\<open>generationRequest.findFirst({where: {id: requestId, userId}})\<close>\<close>

definition generationRequest_findFirst :: "GenerationRequest list \<Rightarrow> string \<Rightarrow> string \<Rightarrow> GenerationRequest option" where
  "generationRequest_findFirst table requestId userId =
     find (\<lambda>r. gr_id r = requestId \<and> gr_userId r = userId) table"

text \<open>
  \<open>generationRequest.update({where: {id: requestId}, data: {status: failed,
  errorMessage: 'Cancelled by user', completedAt: new Date()}})\<close>: the row with this id
  is rewritten; the call rejects when there is none.
\<close>

definition generationRequest_update :: "env \<Rightarrow> store \<Rightarrow> string \<Rightarrow> store option" where
  "generationRequest_update env st requestId =
     (if rejects env GenerationRequest_update
         \<or> \<not> list_ex (\<lambda>r. gr_id r = requestId) (generation_requests st)
      then None
      else Some (st\<lparr> generation_requests :=
             map (\<lambda>r. if gr_id r = requestId
                       then r\<lparr> status := failed,
                               errorMessage := Some ''Cancelled by user'',
                               completedAt := Some (requestTime env) \<rparr>
                       else r)
                 (generation_requests st) \<rparr>))"

section \<open>Validation (GenerationRequestSchema)\<close>

text \<open>
  \<open>model_id\<close> (a number) and \<open>prompt\<close> are required, the prompt has 1 to 1000
  characters, \<open>num_outputs\<close> is an integer from 1 to 4 and defaults to 1; the other
  fields are optional, \<open>seed\<close> any number.
\<close>

definition GenerationRequestSchema_safeParse :: "request_body \<Rightarrow> generation_data option" where
  "GenerationRequestSchema_safeParse b =
     (case b_model_id b of
        None \<Rightarrow> None
      | Some mid \<Rightarrow>
          (case b_prompt b of
             None \<Rightarrow> None
           | Some p \<Rightarrow>
               if length p < 1 \<or> 1000 < length p then None
               else
                 let n = (case b_num_outputs b of None \<Rightarrow> 1 | Some k \<Rightarrow> k)
                 in if of_int \<lfloor>n\<rfloor> \<noteq> n \<or> n < 1 \<or> 4 < n then None
                    else Some \<lparr> model_id = mid,
                                prompt_text = p,
                                negative_prompt = b_negative_prompt b,
                                aspect_ratio = b_aspect_ratio b,
                                num_outputs = \<lfloor>n\<rfloor>,
                                style_preset = b_style_preset b,
                                seed_value = b_seed b,
                                quality_name = b_quality b,
                                api_specific_parameters = b_api_specific_parameters b \<rparr>))"

text \<open>\<open>(req as any).user?.id\<close> followed by \<open>if (!userId)\<close>: the empty string is falsy.\<close>

definition authenticated :: "http_request \<Rightarrow> string option" where
  "authenticated req =
     (case user req of
        None \<Rightarrow> None
      | Some userId \<Rightarrow> if userId = [] then None else Some userId)"

section \<open>createGenerationRequest\<close>

text \<open>
  The handler up to its balance check (authentication, validation, the model lookup, the
  ledger query and the comparison): it reads the store and writes nothing. It ends either
  in a response or with the values the two writes use: the user, the validated data,
  \<open>currentBalance\<close> and \<open>requiredCredits\<close>.
\<close>

definition submit_check :: "env \<Rightarrow> store \<Rightarrow> http_request \<Rightarrow> response + (string \<times> generation_data \<times> int \<times> rat)" where
  "submit_check env st req =
     (case authenticated req of
        None \<Rightarrow> Inl (401, Message ''Authentication required'')
      | Some userId \<Rightarrow>
          (case GenerationRequestSchema_safeParse (body req) of
             None \<Rightarrow> Inl (400, InvalidParameters)
           | Some data \<Rightarrow>
               if rejects env AiModel_findFirst \<or> prisma_Int (model_id data) = None
               then Inl (500, Message ''Failed to create generation request'')
               else
                 (case aiModel_findFirst (ai_models st) (model_id data) of
                    None \<Rightarrow> Inl (400, Message ''Invalid or inactive model selected'')
                  | Some model \<Rightarrow>
                      if rejects env UserCredit_findMany
                      then Inl (500, Message ''Failed to create generation request'')
                      else
                        let balance = currentBalance (tie env) (user_credits st) userId;
                            required = requiredCredits (num_outputs data) model
                        in if of_int balance < required
                           then Inl (402, InsufficientCredits required balance)
                           else Inr (userId, data, balance, required))))"

text \<open>
  The rest of the handler: the seed is converted, then come the two awaited writes, one
  after the other; each of the three may throw into the \<open>catch\<close>. Nothing undoes the
  first write when the second one throws.
\<close>

definition submit_write :: "env \<Rightarrow> store \<Rightarrow> string \<times> generation_data \<times> int \<times> rat \<Rightarrow> response \<times> store" where
  "submit_write env st plan =
     (case plan of (userId, data, balance, required) \<Rightarrow>
        (case data_seed data of
           None \<Rightarrow> ((500, Message ''Failed to create generation request''), st)
         | Some s \<Rightarrow>
             (case generationRequest_create env st userId data s required of
                None \<Rightarrow> ((500, Message ''Failed to create generation request''), st)
              | Some (request, st1) \<Rightarrow>
                  (case userCredit_create env st1 userId (gr_id request) consumption
                          (- required) (of_int balance - required)
                          (''Credit deduction for generation request '' @ gr_id request) of
                     None \<Rightarrow> ((500, Message ''Failed to create generation request''), st1)
                   | Some st2 \<Rightarrow> ((202, Accepted (gr_id request)), st2)))))"

definition createGenerationRequest :: "env \<Rightarrow> store \<Rightarrow> http_request \<Rightarrow> response \<times> store" where
  "createGenerationRequest env st req =
     (case submit_check env st req of
        Inl res \<Rightarrow> (res, st)
      | Inr plan \<Rightarrow> submit_write env st plan)"

section \<open>cancelGenerationRequest\<close>

fun RequestStatus_name :: "RequestStatus \<Rightarrow> string" where
  "RequestStatus_name pending = ''pending''"
| "RequestStatus_name processing = ''processing''"
| "RequestStatus_name completed = ''completed''"
| "RequestStatus_name failed = ''failed''"

definition cancelGenerationRequest :: "env \<Rightarrow> store \<Rightarrow> http_request \<Rightarrow> response \<times> store" where
  "cancelGenerationRequest env st req =
     (case authenticated req of
        None \<Rightarrow> ((401, Message ''Authentication required''), st)
      | Some userId \<Rightarrow>
          let requestId = request_id req in
          if rejects env GenerationRequest_findFirst
          then ((500, Message ''Failed to cancel generation request''), st)
          else
            (case generationRequest_findFirst (generation_requests st) requestId userId of
               None \<Rightarrow> ((404, Message ''Generation request not found''), st)
             | Some request \<Rightarrow>
                 if status request = completed \<or> status request = failed
                 then ((400, Message (''Cannot cancel request with status: ''
                                       @ RequestStatus_name (status request))), st)
                 else
                   (case generationRequest_update env st requestId of
                      None \<Rightarrow> ((500, Message ''Failed to cancel generation request''), st)
                    | Some st1 \<Rightarrow>
                        if creditsCharged request > 0
                        then
                          if rejects env UserCredit_findMany
                          then ((500, Message ''Failed to cancel generation request''), st1)
                          else
                            let balance = currentBalance (tie env) (user_credits st1) userId in
                            (case userCredit_create env st1 userId (gr_id request) refund
                                    (of_int (creditsCharged request))
                                    (of_int (balance + creditsCharged request))
                                    (''Credit refund for cancelled request '' @ gr_id request) of
                               None \<Rightarrow> ((500, Message ''Failed to cancel generation request''), st1)
                             | Some st2 \<Rightarrow> ((200, Cancelled (creditsCharged request)), st2))
                        else ((200, Cancelled (creditsCharged request)), st1))))"

section \<open>getGenerationRequestById\<close>

text \<open>
  The \<open>include\<close> of the query joins the model, its provider and the images of the
  request; \<open>formattedRequest\<close> is the body of the 200 answer.
\<close>

definition formattedImage :: "GeneratedImage \<Rightarrow> image_detail" where
  "formattedImage img =
     \<lparr> image_id = gi_id img,
       url = imageUrl img,
       thumbnail = thumbnailUrl img,
       img_width = width img,
       img_height = height img,
       img_format = format img,
       is_favorited = isFavorited img \<rparr>"

definition formattedRequest :: "store \<Rightarrow> GenerationRequest \<Rightarrow> request_detail" where
  "formattedRequest st request =
     (let model = find (\<lambda>m. am_id m = modelId request) (ai_models st);
          provider = (case model of
                        None \<Rightarrow> None
                      | Some m \<Rightarrow> find (\<lambda>p. ap_id p = providerId m) (api_providers st));
          images = filter (\<lambda>i. gi_requestId i = gr_id request) (generated_images st)
      in \<lparr> d_request_id = gr_id request,
           d_status = status request,
           d_prompt = prompt request,
           d_negative_prompt = negativePrompt request,
           d_aspect_ratio = aspectRatio request,
           d_style_preset = stylePreset request,
           d_seed = (case seed request of
                       None \<Rightarrow> None
                     | Some s \<Rightarrow> if s = 0 then None else Some s),
           d_num_outputs = numOutputs request,
           d_quality = quality request,
           d_model_id = modelId request,
           d_model_name = map_option modelName model,
           d_model_provider = map_option ap_name provider,
           d_model_api_identifier = map_option apiIdentifier model,
           d_created_at = requestedAt request,
           d_processing_started_at = processingStartedAt request,
           d_completed_at = completedAt request,
           d_credits_charged = creditsCharged request,
           d_error_message = errorMessage request,
           d_images = map formattedImage images,
           d_api_specific_parameters = apiSpecificParameters request \<rparr>)"

definition getGenerationRequestById :: "env \<Rightarrow> store \<Rightarrow> http_request \<Rightarrow> response \<times> store" where
  "getGenerationRequestById env st req =
     (case authenticated req of
        None \<Rightarrow> ((401, Message ''Authentication required''), st)
      | Some userId \<Rightarrow>
          let requestId = request_id req in
          if rejects env GenerationRequest_findFirst
          then ((500, Message ''Failed to fetch generation request details''), st)
          else
            (case generationRequest_findFirst (generation_requests st) requestId userId of
               None \<Rightarrow> ((404, Message ''Generation request not found''), st)
             | Some request \<Rightarrow> ((200, Detail (formattedRequest st request)), st)))"

section \<open>Two submits at once\<close>

text \<open>
  A handler gives up control at each \<open>await\<close>, so two calls of
  \<open>createGenerationRequest\<close> can run one after the other, or both can finish their
  reads before either writes. \<open>run_two\<close> gives the two responses and the final store
  for these orders of the handlers' steps (the first handler is A, the second B).
\<close>

datatype schedule = A_then_B | B_then_A | Both_check_then_A_B | Both_check_then_B_A

definition submit_finish :: "env \<Rightarrow> store \<Rightarrow> response + (string \<times> generation_data \<times> int \<times> rat) \<Rightarrow> response \<times> store" where
  "submit_finish env st checked =
     (case checked of
        Inl res \<Rightarrow> (res, st)
      | Inr plan \<Rightarrow> submit_write env st plan)"

fun run_two :: "schedule \<Rightarrow> env \<Rightarrow> env \<Rightarrow> store \<Rightarrow> http_request \<Rightarrow> http_request \<Rightarrow> response \<times> response \<times> store" where
  "run_two A_then_B envA envB st reqA reqB =
     (let (resA, st1) = createGenerationRequest envA st reqA;
          (resB, st2) = createGenerationRequest envB st1 reqB
      in (resA, resB, st2))"
| "run_two B_then_A envA envB st reqA reqB =
     (let (resB, st1) = createGenerationRequest envB st reqB;
          (resA, st2) = createGenerationRequest envA st1 reqA
      in (resA, resB, st2))"
| "run_two Both_check_then_A_B envA envB st reqA reqB =
     (let checkedA = submit_check envA st reqA;
          checkedB = submit_check envB st reqB;
          (resA, st1) = submit_finish envA st checkedA;
          (resB, st2) = submit_finish envB st1 checkedB
      in (resA, resB, st2))"
| "run_two Both_check_then_B_A envA envB st reqA reqB =
     (let checkedA = submit_check envA st reqA;
          checkedB = submit_check envB st reqB;
          (resB, st1) = submit_finish envB st checkedB;
          (resA, st2) = submit_finish envA st1 checkedA
      in (resA, resB, st2))"

section \<open>The ledger as the specification describes it\<close>

text \<open>
  The balance as section 4.1 of the specification words it: the \<open>balanceAfter\<close> of the
  user's most recent entry, ordered by transaction time and, among equal times, by entry
  identifier; 0 for a user without entries.
\<close>

definition more_recent :: "UserCredit \<Rightarrow> UserCredit \<Rightarrow> bool" where
  "more_recent c d =
     (transactionTime d < transactionTime c
      \<or> (transactionTime d = transactionTime c \<and> uc_id d < uc_id c))"

fun spec_latest :: "UserCredit list \<Rightarrow> UserCredit option" where
  "spec_latest [] = None"
| "spec_latest (c # cs) =
     (case spec_latest cs of
        None \<Rightarrow> Some c
      | Some d \<Rightarrow> if more_recent c d then Some c else Some d)"

definition spec_currentBalance :: "UserCredit list \<Rightarrow> string \<Rightarrow> int" where
  "spec_currentBalance table userId =
     (case spec_latest (filter (\<lambda>c. uc_userId c = userId) table) of
        None \<Rightarrow> 0
      | Some c \<Rightarrow> balanceAfter c)"

text \<open>
  The chain of section 3: in the order of insertion, the \<open>balanceAfter\<close> of each entry
  of a user is the \<open>balanceAfter\<close> of the user's entry before it plus the entry's
  \<open>amount\<close>, and the \<open>amount\<close> itself for the user's first entry.
\<close>

definition entries_of :: "string \<Rightarrow> UserCredit list \<Rightarrow> UserCredit list" where
  "entries_of userId table = filter (\<lambda>c. uc_userId c = userId) table"

fun chain :: "int \<Rightarrow> UserCredit list \<Rightarrow> bool" where
  "chain prev [] = True"
| "chain prev (c # cs) = (balanceAfter c = prev + amount c \<and> chain (balanceAfter c) cs)"

definition ledger_chain :: "string \<Rightarrow> UserCredit list \<Rightarrow> bool" where
  "ledger_chain userId table = chain 0 (entries_of userId table)"

text \<open>The entries of a user carry strictly increasing transaction times.\<close>

definition times_increasing :: "string \<Rightarrow> UserCredit list \<Rightarrow> bool" where
  "times_increasing userId table =
     sorted_wrt (<) (map transactionTime (entries_of userId table))"

text \<open>Every entry of the user is older than the time \<open>t\<close>.\<close>

definition all_before :: "nat \<Rightarrow> string \<Rightarrow> UserCredit list \<Rightarrow> bool" where
  "all_before t userId table =
     list_all (\<lambda>c. transactionTime c < t) (entries_of userId table)"

text \<open>Every price in the catalog is a whole number of credits, or missing.\<close>

definition whole_prices :: "AiModel list \<Rightarrow> bool" where
  "whole_prices models =
     list_all (\<lambda>m. case costPerRequest m of
                      None \<Rightarrow> True
                    | Some d \<Rightarrow> of_int \<lfloor>d\<rfloor> = d) models"

section \<open>Example data\<close>

text \<open>
  Three active models: one priced at 2 credits an output, one with the price 0 (the
  column default of \<open>tables.sql\<close>) and one without a price.
\<close>

definition model_priced :: AiModel where
  "model_priced = \<lparr> am_id = 1, providerId = 1, modelName = ''model-a'',
                     apiIdentifier = ''model-a'', isActive = True, costPerRequest = Some 2 \<rparr>"

definition model_free :: AiModel where
  "model_free = \<lparr> am_id = 2, providerId = 1, modelName = ''model-b'',
                   apiIdentifier = ''model-b'', isActive = True, costPerRequest = Some 0 \<rparr>"

definition model_unpriced :: AiModel where
  "model_unpriced = \<lparr> am_id = 3, providerId = 1, modelName = ''model-c'',
                       apiIdentifier = ''model-c'', isActive = True, costPerRequest = None \<rparr>"

text \<open>A ledger row: identifier, user, type, amount, balance after it, time.\<close>

definition entry :: "string \<Rightarrow> string \<Rightarrow> CreditTransactionType \<Rightarrow> int \<Rightarrow> int \<Rightarrow> nat \<Rightarrow> UserCredit" where
  "entry i u ttype amt bal t =
     \<lparr> uc_id = i, uc_userId = u, uc_requestId = None, transactionType = ttype,
       amount = amt, balanceAfter = bal, uc_notes = None, transactionTime = t \<rparr>"

text \<open>A store with the three models, the given requests and the given ledger.\<close>

definition store_of :: "GenerationRequest list \<Rightarrow> UserCredit list \<Rightarrow> store" where
  "store_of requests ledger =
     \<lparr> api_providers = [\<lparr> ap_id = 1, ap_name = ''provider'' \<rparr>],
       ai_models = [model_priced, model_free, model_unpriced],
       generation_requests = requests,
       generated_images = [],
       user_credits = ledger \<rparr>"

text \<open>
  A database that returns the row at position \<open>k\<close> of the rows that share the latest
  time, and an environment with it in which no store call rejects and both clock readings
  are \<open>t\<close>.
\<close>

definition pick_at :: "nat \<Rightarrow> UserCredit list \<Rightarrow> nat" where
  "pick_at k rows = k"

definition env_at :: "string \<Rightarrow> string \<Rightarrow> nat \<Rightarrow> nat \<Rightarrow> env" where
  "env_at rid cid t k =
     \<lparr> requestUuid = rid, creditUuid = cid, requestTime = t, creditTime = t,
       tie = pick_at k, rejects = (\<lambda>_. False) \<rparr>"

text \<open>The same environment with a ledger write that rejects.\<close>

definition env_ledger_down :: "string \<Rightarrow> string \<Rightarrow> nat \<Rightarrow> nat \<Rightarrow> env" where
  "env_ledger_down rid cid t k = (env_at rid cid t k)\<lparr> rejects := (\<lambda>c. c = UserCredit_create) \<rparr>"

text \<open>A submit by user \<open>u\<close> for \<open>n\<close> outputs of model \<open>m\<close>, and a request about \<open>rid\<close>.\<close>

definition submit_by :: "string \<Rightarrow> rat \<Rightarrow> rat \<Rightarrow> http_request" where
  "submit_by u m n =
     \<lparr> user = Some u,
       body = \<lparr> b_model_id = Some m, b_prompt = Some ''a castle in the sky'',
                b_negative_prompt = None, b_aspect_ratio = None, b_num_outputs = Some n,
                b_style_preset = None, b_seed = None, b_quality = None,
                b_api_specific_parameters = None \<rparr>,
       request_id = [] \<rparr>"

definition about :: "string \<Rightarrow> string \<Rightarrow> http_request" where
  "about u rid = (submit_by u 1 1)\<lparr> request_id := rid \<rparr>"

definition data_of :: "rat \<Rightarrow> int \<Rightarrow> generation_data" where
  "data_of m n =
     \<lparr> model_id = m, prompt_text = ''a castle in the sky'', negative_prompt = None,
       aspect_ratio = None, num_outputs = n, style_preset = None, seed_value = None,
       quality_name = None, api_specific_parameters = None \<rparr>"

text \<open>
  A catalog with fractional prices: half a credit and one and a half credits an output.
\<close>

definition model_half :: AiModel where
  "model_half = \<lparr> am_id = 4, providerId = 1, modelName = ''model-d'',
                   apiIdentifier = ''model-d'', isActive = True, costPerRequest = Some (1 / 2) \<rparr>"

definition model_three_halves :: AiModel where
  "model_three_halves = \<lparr> am_id = 5, providerId = 1, modelName = ''model-e'',
                           apiIdentifier = ''model-e'', isActive = True,
                           costPerRequest = Some (3 / 2) \<rparr>"

definition store_fractional :: "UserCredit list \<Rightarrow> store" where
  "store_fractional ledger = (store_of [] ledger)\<lparr> ai_models := [model_half, model_three_halves] \<rparr>"

text \<open>
  A purchase of 10 credits and a submit in the same clock tick: the store after the
  submit holds two ledger entries of one user with the same transaction time.
\<close>

definition store_tied :: store where
  "store_tied =
     snd (createGenerationRequest (env_at ''r1'' ''c1'' 10 0)
            (store_of [] [entry ''c0'' ''alice'' purchase 10 10 10])
            (submit_by ''alice'' 1 2))"

text \<open>
  The store after a user with 5 credits has submitted a request for 4: one pending
  request and its debit.
\<close>

definition store_charged :: store where
  "store_charged =
     store_of [new_GenerationRequest (env_at ''r1'' ''c1'' 20 0) ''alice'' (data_of 1 2) None 4]
       [entry ''c0'' ''alice'' purchase 5 5 10,
        new_UserCredit (env_at ''r1'' ''c1'' 20 0) ''alice'' ''r1'' consumption (- 4) 1
          ''Credit deduction for generation request r1'']"

text \<open>
  The same store after a purchase that brings the balance to 2147483647, the greatest
  value of the \<open>Int\<close> column.
\<close>

definition store_full :: store where
  "store_full =
     store_charged\<lparr> user_credits := user_credits store_charged
                       @ [entry ''c9'' ''alice'' purchase 2147483646 2147483647 25] \<rparr>"

section \<open>The ledger query\<close>

text \<open>
  What \<open>userCredit_findMany\<close> returns: nothing for a user without entries, otherwise
  one of the user's entries with the greatest transaction time; the entry appended last
  when it is strictly later than the others. A chain with strictly increasing times has
  the sum of its amounts as the \<open>balanceAfter\<close> of its last entry.
\<close>

lemma newest_nonempty:
  assumes "rows \<noteq> []"
  shows "filter (\<lambda>c. list_all (\<lambda>d. transactionTime d \<le> transactionTime c) rows) rows \<noteq> []"
proof -
  have fin: "finite (transactionTime ` set rows)" and ne: "transactionTime ` set rows \<noteq> {}"
    using assms by auto
  from Max_in [OF fin ne] obtain c where c: "c \<in> set rows"
    and m: "transactionTime c = Max (transactionTime ` set rows)" by auto
  have "\<forall>d \<in> set rows. transactionTime d \<le> transactionTime c"
    using m fin by (simp add: Max_ge)
  then have "list_all (\<lambda>d. transactionTime d \<le> transactionTime c) rows"
    by (simp add: list_all_iff)
  with c show ?thesis by (auto simp: filter_empty_conv)
qed

lemma findMany_empty:
  "entries_of u table = [] \<Longrightarrow> userCredit_findMany pick table u = []"
  by (simp add: userCredit_findMany_def latest_entries_def entries_of_def)

lemma findMany_pick:
  assumes "entries_of u table \<noteq> []"
  shows "\<exists>c. userCredit_findMany pick table u = [c] \<and> c \<in> set (entries_of u table)
           \<and> list_all (\<lambda>d. transactionTime d \<le> transactionTime c) (entries_of u table)"
proof -
  let ?rows = "entries_of u table"
  let ?newest = "filter (\<lambda>c. list_all (\<lambda>d. transactionTime d \<le> transactionTime c) ?rows) ?rows"
  have ne: "?newest \<noteq> []" using assms by (rule newest_nonempty)
  then have "pick ?newest mod length ?newest < length ?newest" by simp
  then have "?newest ! (pick ?newest mod length ?newest) \<in> set ?newest" by (rule nth_mem)
  moreover have "userCredit_findMany pick table u = [?newest ! (pick ?newest mod length ?newest)]"
    using ne by (simp add: userCredit_findMany_def latest_entries_def entries_of_def Let_def)
  ultimately show ?thesis by auto
qed

lemma newest_snoc:
  assumes "list_all (\<lambda>c. transactionTime c < transactionTime e) xs"
  shows "filter (\<lambda>c. list_all (\<lambda>d. transactionTime d \<le> transactionTime c) (xs @ [e])) (xs @ [e]) = [e]"
proof -
  have old: "\<forall>c \<in> set xs. \<not> transactionTime e \<le> transactionTime c"
    using assms by (auto simp: list_all_iff)
  have new: "list_all (\<lambda>d. transactionTime d \<le> transactionTime e) xs"
    using assms by (auto simp: list_all_iff intro: less_imp_le)
  show ?thesis using old new by (simp add: filter_empty_conv)
qed

lemma findMany_snoc_later:
  assumes "all_before (transactionTime e) u table" and "uc_userId e = u"
  shows "userCredit_findMany pick (table @ [e]) u = [e]"
  using assms newest_snoc [of e "entries_of u table"]
  by (simp add: userCredit_findMany_def latest_entries_def all_before_def entries_of_def Let_def)

lemma findMany_snoc_other:
  "uc_userId e \<noteq> u \<Longrightarrow> userCredit_findMany pick (table @ [e]) u = userCredit_findMany pick table u"
  by (simp add: userCredit_findMany_def latest_entries_def)

lemma sorted_last_greatest:
  assumes "sorted_wrt (<) (map transactionTime rows)" and "rows \<noteq> []"
  shows "list_all (\<lambda>c. transactionTime c < transactionTime (last rows)) (butlast rows)"
proof -
  have "rows = butlast rows @ [last rows]" using assms(2) by simp
  then have "sorted_wrt (<) (map transactionTime (butlast rows @ [last rows]))"
    using assms(1) by simp
  then show ?thesis by (auto simp: sorted_wrt_append list_all_iff)
qed

lemma findMany_increasing:
  assumes "times_increasing u table" and "entries_of u table \<noteq> []"
  shows "userCredit_findMany pick table u = [last (entries_of u table)]"
proof -
  let ?rows = "entries_of u table"
  have split: "?rows = butlast ?rows @ [last ?rows]" using assms(2) by simp
  have "list_all (\<lambda>c. transactionTime c < transactionTime (last ?rows)) (butlast ?rows)"
    using assms by (intro sorted_last_greatest) (simp_all add: times_increasing_def)
  from newest_snoc [OF this]
  have "filter (\<lambda>c. list_all (\<lambda>d. transactionTime d \<le> transactionTime c) ?rows) ?rows = [last ?rows]"
    using split by simp
  then show ?thesis by (simp add: userCredit_findMany_def latest_entries_def entries_of_def Let_def)
qed

lemma chain_snoc:
  "chain p (xs @ [e]) =
     (chain p xs \<and> balanceAfter e = (if xs = [] then p else balanceAfter (last xs)) + amount e)"
  by (induction xs arbitrary: p) auto

lemma chain_sum:
  "chain p xs \<Longrightarrow> (if xs = [] then p else balanceAfter (last xs)) = p + sum_list (map amount xs)"
  by (induction xs arbitrary: p) auto

lemma balance_of_chain:
  assumes "ledger_chain u table" and "times_increasing u table"
  shows "currentBalance pick table u = sum_list (map amount (entries_of u table))"
    and "currentBalance pick table u =
           (if entries_of u table = [] then 0 else balanceAfter (last (entries_of u table)))"
proof -
  show b: "currentBalance pick table u =
           (if entries_of u table = [] then 0 else balanceAfter (last (entries_of u table)))"
    using assms(2) by (simp add: currentBalance_def findMany_empty findMany_increasing)
  show "currentBalance pick table u = sum_list (map amount (entries_of u table))"
    using chain_sum [of 0 "entries_of u table"] assms(1) b by (simp add: ledger_chain_def)
qed

section \<open>The steps of the handlers\<close>

text \<open>
  How the \<open>Int\<close> fields take whole numbers; the outcome of the check and of the writes
  of \<open>createGenerationRequest\<close>, and of \<open>cancelGenerationRequest\<close>, case by case;
  what either handler can do to the ledger; and that appending an entry computed from the
  balance keeps a chain a chain.
\<close>

lemma toward_zero_of_int [simp]: "toward_zero (of_int n) = n"
  by (simp add: toward_zero_def)

lemma toward_zero_neg: "toward_zero (- r) = - toward_zero r"
  by (auto simp: toward_zero_def ceiling_def)

lemma toward_zero_nonneg: "0 \<le> r \<Longrightarrow> 0 \<le> toward_zero r"
  by (simp add: toward_zero_def)

lemma prisma_Int_Some: "prisma_Int r = Some n \<longleftrightarrow> fits_Int (toward_zero r) \<and> n = toward_zero r"
  by (auto simp: prisma_Int_def)

lemma prisma_Int_of_int: "fits_Int n \<Longrightarrow> prisma_Int (of_int n) = Some n"
  by (simp add: prisma_Int_def)

lemma prisma_Int_of_int_Some: "prisma_Int (of_int m) = Some n \<Longrightarrow> n = m"
  by (simp add: prisma_Int_Some)

lemma whole_toward_zero: "of_int \<lfloor>r\<rfloor> = r \<Longrightarrow> of_int (toward_zero r) = r"
  by (auto simp: toward_zero_def ceiling_def)

lemma floor_rat_numeral [simp]:
  "\<lfloor>numeral a / numeral b :: rat\<rfloor> = numeral a div numeral b"
  using floor_divide_of_int_eq [of "numeral a" "numeral b", where ?'a = rat] by simp

lemma floor_rat_one [simp]: "\<lfloor>1 / numeral b :: rat\<rfloor> = 1 div numeral b"
  using floor_divide_of_int_eq [of 1 "numeral b", where ?'a = rat] by simp

lemma ceiling_rat_neg [simp]: "\<lceil>- r :: rat\<rceil> = - \<lfloor>r\<rfloor>"
  by (simp add: ceiling_def)

lemma submit_check_ok:
  assumes "authenticated req = Some u"
    and "GenerationRequestSchema_safeParse (body req) = Some data"
    and "\<not> rejects env AiModel_findFirst"
    and "aiModel_findFirst (ai_models st) (model_id data) = Some model"
    and "\<not> rejects env UserCredit_findMany"
  shows "submit_check env st req =
           (if of_int (currentBalance (tie env) (user_credits st) u) < requiredCredits (num_outputs data) model
            then Inl (402, InsufficientCredits (requiredCredits (num_outputs data) model)
                             (currentBalance (tie env) (user_credits st) u))
            else Inr (u, data, currentBalance (tie env) (user_credits st) u,
                      requiredCredits (num_outputs data) model))"
proof -
  have "prisma_Int (model_id data) \<noteq> None"
    using assms(4) by (auto simp: aiModel_findFirst_def split: option.splits)
  with assms show ?thesis by (simp add: submit_check_def Let_def)
qed

lemma submit_check_Inr:
  assumes "submit_check env st req = Inr (u, data, bal, r)"
  shows "authenticated req = Some u
       \<and> GenerationRequestSchema_safeParse (body req) = Some data
       \<and> (\<exists>model. aiModel_findFirst (ai_models st) (model_id data) = Some model
                  \<and> r = requiredCredits (num_outputs data) model)
       \<and> bal = currentBalance (tie env) (user_credits st) u
       \<and> \<not> of_int bal < r"
  using assms
  by (auto simp: submit_check_def Let_def split: option.splits if_splits)

lemma submit_check_Inl_not_202:
  "submit_check env st req = Inl res \<Longrightarrow> fst res \<noteq> 202"
  by (auto simp: submit_check_def Let_def split: option.splits if_splits)

lemma submit_write_ok:
  assumes "data_seed data = Some s" and "fits_BigInt s"
    and "\<not> rejects env GenerationRequest_create" and "\<not> rejects env UserCredit_create"
    and "prisma_Int r = Some n"
    and "prisma_Int (- r) = Some a" and "prisma_Int (of_int bal - r) = Some b"
  shows "submit_write env st (u, data, bal, r) =
            ((202, Accepted (requestUuid env)),
             st\<lparr> generation_requests := generation_requests st
                    @ [new_GenerationRequest env u data s n],
                 user_credits := user_credits st @
                   [new_UserCredit env u (requestUuid env) consumption a b
                      (''Credit deduction for generation request '' @ requestUuid env)] \<rparr>)"
  using assms
  by (simp add: submit_write_def generationRequest_create_def userCredit_create_def
      Let_def new_GenerationRequest_def)

lemma submit_write_half:
  assumes "data_seed data = Some s" and "fits_BigInt s"
    and "\<not> rejects env GenerationRequest_create"
    and "prisma_Int r = Some n"
    and "rejects env UserCredit_create \<or> prisma_Int (- r) = None
         \<or> prisma_Int (of_int bal - r) = None"
  shows "submit_write env st (u, data, bal, r) =
            ((500, Message ''Failed to create generation request''),
             st\<lparr> generation_requests := generation_requests st
                    @ [new_GenerationRequest env u data s n] \<rparr>)"
  using assms
  by (auto simp: submit_write_def generationRequest_create_def userCredit_create_def
      Let_def split: option.splits)

lemma submit_write_none:
  assumes "data_seed data = None
           \<or> (\<exists>s. data_seed data = Some s
                  \<and> (rejects env GenerationRequest_create \<or> \<not> fits_BigInt s
                      \<or> prisma_Int r = None))"
  shows "submit_write env st (u, data, bal, r) =
            ((500, Message ''Failed to create generation request''), st)"
  using assms by (auto simp: submit_write_def generationRequest_create_def)

text \<open>The three outcomes of the writes.\<close>

lemma submit_write_cases:
  "submit_write env st (u, data, bal, r) =
     ((500, Message ''Failed to create generation request''), st)
   \<or> (\<exists>s n. data_seed data = Some s \<and> prisma_Int r = Some n
          \<and> submit_write env st (u, data, bal, r) =
               ((500, Message ''Failed to create generation request''),
                st\<lparr> generation_requests := generation_requests st
                       @ [new_GenerationRequest env u data s n] \<rparr>))
   \<or> (\<exists>s n a b. data_seed data = Some s \<and> prisma_Int r = Some n
          \<and> prisma_Int (- r) = Some a \<and> prisma_Int (of_int bal - r) = Some b
          \<and> submit_write env st (u, data, bal, r) =
               ((202, Accepted (requestUuid env)),
                st\<lparr> generation_requests := generation_requests st
                       @ [new_GenerationRequest env u data s n],
                    user_credits := user_credits st @
                      [new_UserCredit env u (requestUuid env) consumption a b
                         (''Credit deduction for generation request '' @ requestUuid env)] \<rparr>))"
proof (cases "data_seed data = None
           \<or> (\<exists>s. data_seed data = Some s
                  \<and> (rejects env GenerationRequest_create \<or> \<not> fits_BigInt s
                      \<or> prisma_Int r = None))")
  case True
  then show ?thesis by (simp only: submit_write_none simp_thms)
next
  case False
  then obtain s n where s: "data_seed data = Some s" "fits_BigInt s"
    and g: "\<not> rejects env GenerationRequest_create" and n: "prisma_Int r = Some n"
    by auto
  show ?thesis
  proof (cases "rejects env UserCredit_create \<or> prisma_Int (- r) = None
         \<or> prisma_Int (of_int bal - r) = None")
    case True
    from submit_write_half [OF s g n True] s(1) n show ?thesis by blast
  next
    case False
    then obtain a b where c: "\<not> rejects env UserCredit_create"
      and ab: "prisma_Int (- r) = Some a" "prisma_Int (of_int bal - r) = Some b" by auto
    from submit_write_ok [OF s g c n ab] s(1) n ab show ?thesis by blast
  qed
qed

text \<open>A submit that answers 202 has passed the check and made both writes.\<close>

lemma submit_accepted:
  assumes "createGenerationRequest env st req = ((202, b), st')"
  shows "\<exists>userId data model s.
           authenticated req = Some userId
         \<and> GenerationRequestSchema_safeParse (body req) = Some data
         \<and> aiModel_findFirst (ai_models st) (model_id data) = Some model
         \<and> \<not> of_int (currentBalance (tie env) (user_credits st) userId)
               < requiredCredits (num_outputs data) model
         \<and> data_seed data = Some s
         \<and> b = Accepted (requestUuid env)
         \<and> st' = st\<lparr> generation_requests := generation_requests st
                         @ [new_GenerationRequest env userId data s
                              (toward_zero (requiredCredits (num_outputs data) model))],
                       user_credits := user_credits st
                         @ [new_UserCredit env userId (requestUuid env) consumption
                              (- toward_zero (requiredCredits (num_outputs data) model))
                              (toward_zero (of_int (currentBalance (tie env) (user_credits st) userId)
                                            - requiredCredits (num_outputs data) model))
                              (''Credit deduction for generation request '' @ requestUuid env)] \<rparr>"
proof (cases "submit_check env st req")
  case (Inl res)
  with assms submit_check_Inl_not_202 [OF Inl] show ?thesis
    by (simp add: createGenerationRequest_def)
next
  case (Inr plan)
  obtain u data bal r where plan: "plan = (u, data, bal, r)" by (cases plan) auto
  note chk = submit_check_Inr [OF Inr [unfolded plan]]
  have w: "submit_write env st (u, data, bal, r) = ((202, b), st')"
    using assms Inr plan by (simp add: createGenerationRequest_def)
  from chk obtain model where
    m: "aiModel_findFirst (ai_models st) (model_id data) = Some model"
      "r = requiredCredits (num_outputs data) model" by blast
  from submit_write_cases [of env st u data bal r] w
  obtain s n a bb where s: "data_seed data = Some s"
    and n: "prisma_Int r = Some n" "prisma_Int (- r) = Some a"
      "prisma_Int (of_int bal - r) = Some bb"
    and res: "((202, b), st') = ((202, Accepted (requestUuid env)),
                st\<lparr> generation_requests := generation_requests st
                       @ [new_GenerationRequest env u data s n],
                    user_credits := user_credits st @
                      [new_UserCredit env u (requestUuid env) consumption a bb
                         (''Credit deduction for generation request '' @ requestUuid env)] \<rparr>)"
    by auto
  have "n = toward_zero r" "a = - toward_zero r" "bb = toward_zero (of_int bal - r)"
    using n by (simp_all add: prisma_Int_Some toward_zero_neg)
  with res chk m s show ?thesis
    by (intro exI [of _ u] exI [of _ data] exI [of _ model] exI [of _ s]) simp
qed

lemma whole_required:
  assumes "whole_prices models" and "aiModel_findFirst models i = Some m"
  shows "\<exists>k. requiredCredits n m = of_int k"
proof -
  have "m \<in> set models"
    using assms(2) by (auto simp: aiModel_findFirst_def find_Some_iff split: option.splits)
  with assms(1) have "case costPerRequest m of None \<Rightarrow> True | Some d \<Rightarrow> of_int \<lfloor>d\<rfloor> = d"
    by (simp add: whole_prices_def list_all_iff)
  then show ?thesis
  proof (cases "costPerRequest m")
    case None
    then show ?thesis by (auto simp: requiredCredits_def intro: exI [of _ n])
  next
    case (Some d)
    with \<open>case costPerRequest m of None \<Rightarrow> True | Some d \<Rightarrow> of_int \<lfloor>d\<rfloor> = d\<close>
    obtain j where d: "d = of_int j" by auto
    show ?thesis
    proof (cases "d = 0")
      case True
      with Some show ?thesis by (auto simp: requiredCredits_def intro: exI [of _ n])
    next
      case False
      have "requiredCredits n m = of_int n * d"
        using Some False by (simp add: requiredCredits_def)
      also have "\<dots> = of_int (n * j)" using d by simp
      finally show ?thesis by (rule exI)
    qed
  qed
qed

text \<open>What a submit can do to the ledger.\<close>

lemma submit_ledger_any:
  "user_credits (snd (createGenerationRequest env st req)) = user_credits st
   \<or> (\<exists>c. user_credits (snd (createGenerationRequest env st req)) = user_credits st @ [c]
          \<and> transactionType c = consumption \<and> 0 \<le> balanceAfter c
          \<and> transactionTime c = creditTime env)"
proof (cases "submit_check env st req")
  case (Inl res)
  then show ?thesis by (simp add: createGenerationRequest_def)
next
  case (Inr plan)
  obtain u data bal r where plan: "plan = (u, data, bal, r)" by (cases plan) auto
  note chk = submit_check_Inr [OF Inr [unfolded plan]]
  have run: "createGenerationRequest env st req = submit_write env st (u, data, bal, r)"
    using Inr plan by (simp add: createGenerationRequest_def)
  have "0 \<le> toward_zero (of_int bal - r)"
    using chk by (intro toward_zero_nonneg) simp
  then show ?thesis
    using submit_write_cases [of env st u data bal r] unfolding run
    by (auto simp: new_UserCredit_def prisma_Int_Some)
qed

lemma submit_ledger_step:
  assumes "whole_prices (ai_models st)"
  shows "user_credits (snd (createGenerationRequest env st req)) = user_credits st
   \<or> (\<exists>c. user_credits (snd (createGenerationRequest env st req)) = user_credits st @ [c]
          \<and> balanceAfter c = currentBalance (tie env) (user_credits st) (uc_userId c) + amount c
          \<and> transactionTime c = creditTime env)"
proof (cases "submit_check env st req")
  case (Inl res)
  then show ?thesis by (simp add: createGenerationRequest_def)
next
  case (Inr plan)
  obtain u data bal r where plan: "plan = (u, data, bal, r)" by (cases plan) auto
  note chk = submit_check_Inr [OF Inr [unfolded plan]]
  have run: "createGenerationRequest env st req = submit_write env st (u, data, bal, r)"
    using Inr plan by (simp add: createGenerationRequest_def)
  from chk whole_required [OF assms] obtain k where k: "r = of_int k" by blast
  have "toward_zero (of_int bal - r) = bal - k" "toward_zero (- r) = - k"
    unfolding k by (simp_all add: toward_zero_neg flip: of_int_diff)
  then show ?thesis
    using submit_write_cases [of env st u data bal r] chk unfolding run
    by (auto simp: new_UserCredit_def prisma_Int_Some)
qed

text \<open>What a cancellation does.\<close>

lemma findFirst_exists:
  "generationRequest_findFirst table rid u = Some request \<Longrightarrow>
     list_ex (\<lambda>r. gr_id r = rid) table \<and> gr_id request = rid \<and> gr_userId request = u
     \<and> request \<in> set table"
  by (auto simp: generationRequest_findFirst_def find_Some_iff list_ex_iff)

lemma update_ledger:
  "generationRequest_update env st rid = Some st1 \<Longrightarrow> user_credits st1 = user_credits st"
  by (auto simp: generationRequest_update_def split: if_splits)

lemma cancel_ok:
  assumes "authenticated req = Some u"
    and "generationRequest_findFirst (generation_requests st) (request_id req) u = Some request"
    and "status request = pending \<or> status request = processing"
    and "\<forall>c. \<not> rejects env c"
    and "fits_Int (creditsCharged request)"
    and "fits_Int (currentBalance (tie env) (user_credits st) u + creditsCharged request)"
  shows "cancelGenerationRequest env st req =
           ((200, Cancelled (creditsCharged request)),
            (if creditsCharged request > 0
             then st\<lparr> generation_requests :=
                        map (\<lambda>r. if gr_id r = request_id req
                                  then r\<lparr> status := failed,
                                          errorMessage := Some ''Cancelled by user'',
                                          completedAt := Some (requestTime env) \<rparr>
                                  else r) (generation_requests st),
                      user_credits := user_credits st @
                        [new_UserCredit env u (gr_id request) refund (creditsCharged request)
                           (currentBalance (tie env) (user_credits st) u + creditsCharged request)
                           (''Credit refund for cancelled request '' @ gr_id request)] \<rparr>
             else st\<lparr> generation_requests :=
                        map (\<lambda>r. if gr_id r = request_id req
                                  then r\<lparr> status := failed,
                                          errorMessage := Some ''Cancelled by user'',
                                          completedAt := Some (requestTime env) \<rparr>
                                  else r) (generation_requests st) \<rparr>))"
proof -
  have ex: "list_ex (\<lambda>r. gr_id r = request_id req) (generation_requests st)"
    using findFirst_exists [OF assms(2)] by simp
  show ?thesis
    using assms ex
    by (auto simp: cancelGenerationRequest_def generationRequest_update_def
        userCredit_create_def Let_def prisma_Int_of_int simp del: of_int_add)
qed

text \<open>
  A cancellation whose refund write rejects, by the store or because the new balance
  does not fit the column: the request is \<open>failed\<close> already and the ledger is as it was.
\<close>

lemma cancel_refund_lost:
  assumes "authenticated req = Some u"
    and "generationRequest_findFirst (generation_requests st) (request_id req) u = Some request"
    and "status request = pending \<or> status request = processing"
    and "\<not> rejects env GenerationRequest_findFirst"
    and "\<not> rejects env GenerationRequest_update"
    and "\<not> rejects env UserCredit_findMany"
    and "0 < creditsCharged request"
    and "rejects env UserCredit_create
         \<or> \<not> fits_Int (creditsCharged request)
         \<or> \<not> fits_Int (currentBalance (tie env) (user_credits st) u + creditsCharged request)"
  shows "cancelGenerationRequest env st req =
           ((500, Message ''Failed to cancel generation request''),
            st\<lparr> generation_requests :=
                   map (\<lambda>r. if gr_id r = request_id req
                             then r\<lparr> status := failed,
                                     errorMessage := Some ''Cancelled by user'',
                                     completedAt := Some (requestTime env) \<rparr>
                             else r) (generation_requests st) \<rparr>)"
proof -
  have ex: "list_ex (\<lambda>r. gr_id r = request_id req) (generation_requests st)"
    using findFirst_exists [OF assms(2)] by simp
  show ?thesis
    using assms ex
    by (auto simp: cancelGenerationRequest_def generationRequest_update_def
        userCredit_create_def Let_def prisma_Int_def split: option.splits
        simp del: of_int_add)
qed

lemma cancel_ledger_step:
  "user_credits (snd (cancelGenerationRequest env st req)) = user_credits st
   \<or> (\<exists>c. user_credits (snd (cancelGenerationRequest env st req)) = user_credits st @ [c]
          \<and> balanceAfter c = currentBalance (tie env) (user_credits st) (uc_userId c) + amount c
          \<and> transactionTime c = creditTime env)"
  by (auto simp: cancelGenerationRequest_def Let_def userCredit_create_def new_UserCredit_def
      dest!: update_ledger prisma_Int_of_int_Some split: option.splits if_splits
      simp del: of_int_add)

lemma cancel_terminal:
  assumes "authenticated req = Some u"
    and "\<not> rejects env GenerationRequest_findFirst"
    and "generationRequest_findFirst (generation_requests st) (request_id req) u = Some request"
    and "status request = completed \<or> status request = failed"
  shows "cancelGenerationRequest env st req =
           ((400, Message (''Cannot cancel request with status: ''
                            @ RequestStatus_name (status request))), st)"
  using assms by (auto simp: cancelGenerationRequest_def Let_def)


lemma snoc_preserves:
  assumes ch: "ledger_chain u table" and inc: "times_increasing u table"
    and before: "all_before (transactionTime c) u table"
    and bal: "balanceAfter c = currentBalance pick table (uc_userId c) + amount c"
  shows "ledger_chain u (table @ [c]) \<and> times_increasing u (table @ [c])"
proof (cases "uc_userId c = u")
  case False
  then show ?thesis using ch inc by (simp add: ledger_chain_def times_increasing_def entries_of_def)
next
  case True
  have ent: "entries_of u (table @ [c]) = entries_of u table @ [c]"
    using True by (simp add: entries_of_def)
  have "balanceAfter c =
          (if entries_of u table = [] then 0 else balanceAfter (last (entries_of u table))) + amount c"
    using bal True balance_of_chain(2) [OF ch inc, of pick] by simp
  then have "chain 0 (entries_of u table @ [c])"
    using ch by (simp add: chain_snoc ledger_chain_def)
  moreover have "sorted_wrt (<) (map transactionTime (entries_of u table @ [c]))"
    using inc before by (auto simp: sorted_wrt_append times_increasing_def all_before_def list_all_iff)
  ultimately show ?thesis by (simp add: ent ledger_chain_def times_increasing_def)
qed

lemma step_preserves:
  assumes ch: "ledger_chain u table" and inc: "times_increasing u table"
    and before: "all_before t u table"
    and step: "table' = table
               \<or> (\<exists>c. table' = table @ [c]
                      \<and> balanceAfter c = currentBalance pick table (uc_userId c) + amount c
                      \<and> transactionTime c = t)"
  shows "ledger_chain u table' \<and> times_increasing u table' \<and> (\<exists>es. table' = table @ es)"
  using step
proof
  assume "table' = table"
  with ch inc show ?thesis by simp
next
  assume "\<exists>c. table' = table @ [c]
             \<and> balanceAfter c = currentBalance pick table (uc_userId c) + amount c
             \<and> transactionTime c = t"
  then obtain c where c: "table' = table @ [c]"
      "balanceAfter c = currentBalance pick table (uc_userId c) + amount c"
      "transactionTime c = t" by blast
  from snoc_preserves [OF ch inc _ c(2)] before c(3)
  have "ledger_chain u (table @ [c]) \<and> times_increasing u (table @ [c])" by simp
  with c(1) show ?thesis by blast
qed


lemma find_map_same:
  "(\<And>x. P (f x) = P x) \<Longrightarrow> find P (map f xs) = map_option f (find P xs)"
  by (induction xs) auto

lemma findFirst_after_update:
  assumes "generationRequest_findFirst table rid u = Some request"
  shows "generationRequest_findFirst
           (map (\<lambda>r. if gr_id r = rid
                     then r\<lparr> status := failed, errorMessage := Some ''Cancelled by user'',
                             completedAt := Some t \<rparr>
                     else r) table) rid u
         = Some (request\<lparr> status := failed, errorMessage := Some ''Cancelled by user'',
                          completedAt := Some t \<rparr>)"
proof -
  let ?f = "\<lambda>r. if gr_id r = rid
                 then r\<lparr> status := failed, errorMessage := Some ''Cancelled by user'',
                         completedAt := Some t \<rparr>
                 else r"
  have "gr_id request = rid" using findFirst_exists [OF assms] by simp
  then show ?thesis
    using assms
      find_map_same [of "\<lambda>r. gr_id r = rid \<and> gr_userId r = u" ?f table]
    by (simp add: generationRequest_findFirst_def)
qed


lemma cancel_200:
  assumes "fst (fst (cancelGenerationRequest env st req)) = 200"
  shows "\<exists>u request.
           authenticated req = Some u
         \<and> generationRequest_findFirst (generation_requests st) (request_id req) u = Some request
         \<and> generation_requests (snd (cancelGenerationRequest env st req))
             = map (\<lambda>r. if gr_id r = request_id req
                         then r\<lparr> status := failed, errorMessage := Some ''Cancelled by user'',
                                 completedAt := Some (requestTime env) \<rparr>
                         else r) (generation_requests st)"
  using assms
  by (auto simp: cancelGenerationRequest_def Let_def generationRequest_update_def
      userCredit_create_def split: option.splits if_splits)

section \<open>Claims\<close>

lemmas example_defs = pick_at_def model_priced_def model_free_def model_unpriced_def entry_def
  store_of_def env_at_def env_ledger_down_def submit_by_def about_def data_of_def

lemmas handler_defs = createGenerationRequest_def submit_check_def submit_write_def
  authenticated_def GenerationRequestSchema_safeParse_def aiModel_findFirst_def
  currentBalance_def userCredit_findMany_def latest_entries_def requiredCredits_def
  data_seed_def fits_BigInt_def generationRequest_create_def userCredit_create_def
  prisma_Int_def toward_zero_def fits_Int_def new_GenerationRequest_def new_UserCredit_def
  Let_def

lemmas cancel_defs = cancelGenerationRequest_def generationRequest_findFirst_def
  generationRequest_update_def

lemma example_accepted:
  "createGenerationRequest (env_at ''r1'' ''c1'' 20 0)
      (store_of [] [entry ''c0'' ''alice'' purchase 5 5 10]) (submit_by ''alice'' 1 2)
   = ((202, Accepted ''r1''),
      store_of [new_GenerationRequest (env_at ''r1'' ''c1'' 20 0) ''alice'' (data_of 1 2) None 4]
        [entry ''c0'' ''alice'' purchase 5 5 10,
         new_UserCredit (env_at ''r1'' ''c1'' 20 0) ''alice'' ''r1'' consumption (- 4) 1
           ''Credit deduction for generation request r1''])"
  by (simp add: handler_defs example_defs)


lemma example_cancelled:
  "cancelGenerationRequest (env_at ''r9'' ''c2'' 30 0) store_charged (about ''alice'' ''r1'')
   = ((200, Cancelled 4),
      store_of [(new_GenerationRequest (env_at ''r1'' ''c1'' 20 0) ''alice'' (data_of 1 2) None 4)
                  \<lparr> status := failed, errorMessage := Some ''Cancelled by user'',
                    completedAt := Some 30 \<rparr>]
        [entry ''c0'' ''alice'' purchase 5 5 10,
         new_UserCredit (env_at ''r1'' ''c1'' 20 0) ''alice'' ''r1'' consumption (- 4) 1
           ''Credit deduction for generation request r1'',
         new_UserCredit (env_at ''r9'' ''c2'' 30 0) ''alice'' ''r1'' refund 4 5
           ''Credit refund for cancelled request r1''])"
  by (simp add: store_charged_def cancel_defs handler_defs example_defs)

lemma findMany_in_latest:
  assumes "entries_of u table \<noteq> []"
  shows "\<exists>c \<in> set (latest_entries (entries_of u table)). userCredit_findMany pick table u = [c]"
proof -
  let ?newest = "latest_entries (entries_of u table)"
  have ne: "?newest \<noteq> []"
    using newest_nonempty [OF assms] by (simp add: latest_entries_def)
  then have "?newest ! (pick ?newest mod length ?newest) \<in> set ?newest" by simp
  moreover have "userCredit_findMany pick table u = [?newest ! (pick ?newest mod length ?newest)]"
    using ne by (simp add: userCredit_findMany_def entries_of_def Let_def)
  ultimately show ?thesis by blast
qed

lemma spec_latest_greatest:
  "rows \<noteq> [] \<Longrightarrow>
     \<exists>s. spec_latest rows = Some s \<and> s \<in> set rows
        \<and> (\<forall>d \<in> set rows. transactionTime d \<le> transactionTime s)"
proof (induction rows)
  case Nil
  then show ?case by simp
next
  case (Cons c cs)
  show ?case
  proof (cases "cs = []")
    case True
    then show ?thesis by simp
  next
    case False
    from Cons.IH [OF False] obtain s where s: "spec_latest cs = Some s" "s \<in> set cs"
      "\<forall>d \<in> set cs. transactionTime d \<le> transactionTime s" by blast
    show ?thesis
    proof (cases "more_recent c s")
      case True
      then have "transactionTime s \<le> transactionTime c" by (auto simp: more_recent_def)
      with s True show ?thesis by (auto intro: order_trans)
    next
      case False
      then have "transactionTime c \<le> transactionTime s" by (auto simp: more_recent_def)
      with s False show ?thesis by auto
    qed
  qed
qed

lemma spec_latest_in_latest:
  assumes "rows \<noteq> []"
  shows "\<exists>s \<in> set (latest_entries rows). spec_latest rows = Some s"
  using spec_latest_greatest [OF assms] by (auto simp: latest_entries_def list_all_iff)

lemma short_list_eq:
  "length xs \<le> 1 \<Longrightarrow> a \<in> set xs \<Longrightarrow> b \<in> set xs \<Longrightarrow> a = b"
  by (cases xs) auto

text \<open>
  C3, as the code has it. The balance is 0 for a user without ledger entries (an unknown
  user included) and is otherwise the \<open>balanceAfter\<close> of one of the user's entries with
  the greatest transaction time. The query orders by transaction time only: when one
  entry alone carries the greatest time, the balance is the one the specification
  describes; among entries that share it, the entry is the database's choice and the
  identifier plays no part.
\<close>

theorem currentBalance_latest:
  "(entries_of u table = [] \<longrightarrow> currentBalance pick table u = 0)
   \<and> (entries_of u table \<noteq> [] \<longrightarrow>
        (\<exists>c \<in> set (entries_of u table).
            list_all (\<lambda>d. transactionTime d \<le> transactionTime c) (entries_of u table)
          \<and> currentBalance pick table u = balanceAfter c))
   \<and> (length (latest_entries (entries_of u table)) \<le> 1 \<longrightarrow>
        currentBalance pick table u = spec_currentBalance table u)"
proof (intro conjI impI)
  assume "entries_of u table = []"
  then show "currentBalance pick table u = 0"
    by (simp add: currentBalance_def findMany_empty)
next
  assume "entries_of u table \<noteq> []"
  from findMany_pick [OF this, of pick]
  show "\<exists>c \<in> set (entries_of u table).
            list_all (\<lambda>d. transactionTime d \<le> transactionTime c) (entries_of u table)
          \<and> currentBalance pick table u = balanceAfter c"
    by (auto simp: currentBalance_def)
next
  assume one: "length (latest_entries (entries_of u table)) \<le> 1"
  show "currentBalance pick table u = spec_currentBalance table u"
  proof (cases "entries_of u table = []")
    case True
    then show ?thesis
      by (simp add: currentBalance_def findMany_empty spec_currentBalance_def entries_of_def)
  next
    case False
    from findMany_in_latest [OF False, of pick] obtain c where
      c: "c \<in> set (latest_entries (entries_of u table))" "userCredit_findMany pick table u = [c]"
      by blast
    from spec_latest_in_latest [OF False] obtain s where
      s: "s \<in> set (latest_entries (entries_of u table))" "spec_latest (entries_of u table) = Some s"
      by blast
    have "c = s" using one c(1) s(1) by (rule short_list_eq)
    then show ?thesis
      using c(2) s(2) by (simp add: currentBalance_def spec_currentBalance_def entries_of_def)
  qed
qed

theorem currentBalance_latest_witness:
  "entries_of ''bob'' [entry ''c0'' ''alice'' purchase 5 5 10,
                       entry ''c1'' ''alice'' consumption (- 4) 1 21] = []
   \<and> currentBalance (pick_at 0) [entry ''c0'' ''alice'' purchase 5 5 10,
                               entry ''c1'' ''alice'' consumption (- 4) 1 21] ''bob'' = 0
   \<and> entries_of ''alice'' [entry ''c0'' ''alice'' purchase 5 5 10,
                           entry ''c1'' ''alice'' consumption (- 4) 1 21] \<noteq> []
   \<and> length (latest_entries (entries_of ''alice'' [entry ''c0'' ''alice'' purchase 5 5 10,
                           entry ''c1'' ''alice'' consumption (- 4) 1 21])) \<le> 1
   \<and> spec_currentBalance [entry ''c0'' ''alice'' purchase 5 5 10,
                          entry ''c1'' ''alice'' consumption (- 4) 1 21] ''alice'' = 1
   \<and> currentBalance (pick_at 7) [entry ''c0'' ''alice'' purchase 5 5 10,
                               entry ''c1'' ''alice'' consumption (- 4) 1 21] ''alice'' = 1"
proof -
  let ?ledger = "[entry ''c0'' ''alice'' purchase 5 5 10,
                  entry ''c1'' ''alice'' consumption (- 4) 1 21]"
  have none: "entries_of ''bob'' ?ledger = []"
    by (simp add: entries_of_def entry_def)
  have some: "entries_of ''alice'' ?ledger \<noteq> []"
    by (simp add: entries_of_def entry_def)
  have one: "length (latest_entries (entries_of ''alice'' ?ledger)) \<le> 1"
    by (simp add: latest_entries_def entries_of_def entry_def)
  have spec: "spec_currentBalance ?ledger ''alice'' = 1"
    by (simp add: spec_currentBalance_def more_recent_def entry_def)
  have "currentBalance (pick_at 0) ?ledger ''bob'' = 0"
    using currentBalance_latest [of "''bob''" ?ledger "pick_at 0"] none by blast
  moreover have "currentBalance (pick_at 7) ?ledger ''alice'' = 1"
    using currentBalance_latest [of "''alice''" ?ledger "pick_at 7"] one spec by simp
  ultimately show ?thesis using none some one spec by blast
qed

text \<open>
  C3 as stated fails: of two entries with the same transaction time the specification
  takes the one with the greater identifier (balance 9), the query may as well return the
  other (balance 5), and a different choice of the database gives a different balance.
\<close>

theorem tie_not_broken_by_identifier:
  "currentBalance (pick_at 0) [entry ''a'' ''alice'' purchase 5 5 10,
                            entry ''b'' ''alice'' bonus 4 9 10] ''alice'' = 5
   \<and> spec_currentBalance [entry ''a'' ''alice'' purchase 5 5 10,
                          entry ''b'' ''alice'' bonus 4 9 10] ''alice'' = 9
   \<and> currentBalance (pick_at 1) [entry ''a'' ''alice'' purchase 5 5 10,
                              entry ''b'' ''alice'' bonus 4 9 10] ''alice'' = 9"
  by (simp add: currentBalance_def userCredit_findMany_def latest_entries_def
      spec_currentBalance_def more_recent_def entry_def pick_at_def)

text \<open>
  C5, as the code has it. For a model whose \<open>costPerRequest\<close> is present and not 0,
  \<open>requiredCredits\<close> is \<open>num_outputs\<close> times \<open>costPerRequest\<close>, and this is the
  amount the handler compares with the balance and passes on to its writes. With balance
  5, a price of 2 an output and \<open>num_outputs = 2\<close> it is 4, the submit is accepted and
  the new balance is 1.
\<close>

theorem requiredCredits_priced:
  "(costPerRequest m = Some d \<and> d \<noteq> 0 \<longrightarrow> requiredCredits n m = of_int n * d)
   \<and> (authenticated req = Some u
        \<and> GenerationRequestSchema_safeParse (body req) = Some data
        \<and> \<not> rejects env AiModel_findFirst \<and> \<not> rejects env UserCredit_findMany
        \<and> aiModel_findFirst (ai_models st) (model_id data) = Some m
        \<and> costPerRequest m = Some d \<and> d \<noteq> 0 \<longrightarrow>
      submit_check env st req =
        (if of_int (currentBalance (tie env) (user_credits st) u) < of_int (num_outputs data) * d
         then Inl (402, InsufficientCredits (of_int (num_outputs data) * d)
                          (currentBalance (tie env) (user_credits st) u))
         else Inr (u, data, currentBalance (tie env) (user_credits st) u,
                   of_int (num_outputs data) * d)))
   \<and> requiredCredits 2 model_priced = 4
   \<and> currentBalance pick [entry ''c0'' ''alice'' purchase 5 5 10] ''alice'' = 5
   \<and> createGenerationRequest (env_at ''r1'' ''c1'' 20 0)
        (store_of [] [entry ''c0'' ''alice'' purchase 5 5 10]) (submit_by ''alice'' 1 2)
      = ((202, Accepted ''r1''), store_charged)
   \<and> currentBalance pick (user_credits store_charged) ''alice'' = 1"
proof (intro conjI impI)
  assume "costPerRequest m = Some d \<and> d \<noteq> 0"
  then show "requiredCredits n m = of_int n * d" by (simp add: requiredCredits_def)
next
  assume a: "authenticated req = Some u
        \<and> GenerationRequestSchema_safeParse (body req) = Some data
        \<and> \<not> rejects env AiModel_findFirst \<and> \<not> rejects env UserCredit_findMany
        \<and> aiModel_findFirst (ai_models st) (model_id data) = Some m
        \<and> costPerRequest m = Some d \<and> d \<noteq> 0"
  then have "requiredCredits (num_outputs data) m = of_int (num_outputs data) * d"
    by (simp add: requiredCredits_def)
  with a submit_check_ok [of req u data env st m]
  show "submit_check env st req =
        (if of_int (currentBalance (tie env) (user_credits st) u) < of_int (num_outputs data) * d
         then Inl (402, InsufficientCredits (of_int (num_outputs data) * d)
                          (currentBalance (tie env) (user_credits st) u))
         else Inr (u, data, currentBalance (tie env) (user_credits st) u,
                   of_int (num_outputs data) * d))"
    by simp
next
  show "requiredCredits 2 model_priced = 4"
    by (simp add: requiredCredits_def model_priced_def)
next
  show "currentBalance pick [entry ''c0'' ''alice'' purchase 5 5 10] ''alice'' = 5"
    by (simp add: currentBalance_def userCredit_findMany_def latest_entries_def entry_def)
next
  show "createGenerationRequest (env_at ''r1'' ''c1'' 20 0)
        (store_of [] [entry ''c0'' ''alice'' purchase 5 5 10]) (submit_by ''alice'' 1 2)
      = ((202, Accepted ''r1''), store_charged)"
    by (simp add: example_accepted store_charged_def)
next
  have "entries_of ''alice'' (user_credits store_charged) \<noteq> []"
    by (simp add: entries_of_def store_charged_def store_of_def entry_def)
  moreover have "times_increasing ''alice'' (user_credits store_charged)"
    by (simp add: times_increasing_def entries_of_def store_charged_def store_of_def entry_def
        new_UserCredit_def env_at_def)
  ultimately have "userCredit_findMany pick (user_credits store_charged) ''alice''
      = [last (entries_of ''alice'' (user_credits store_charged))]"
    by (simp add: findMany_increasing)
  then show "currentBalance pick (user_credits store_charged) ''alice'' = 1"
    by (simp add: currentBalance_def entries_of_def store_charged_def store_of_def entry_def
        new_UserCredit_def)
qed

theorem requiredCredits_priced_witness:
  "costPerRequest model_priced = Some 2 \<and> (2 :: rat) \<noteq> 0
   \<and> requiredCredits 3 model_priced = 6
   \<and> submit_check (env_at ''r1'' ''c1'' 20 0)
        (store_of [] [entry ''c0'' ''alice'' purchase 5 5 10]) (submit_by ''alice'' 1 2)
      = Inr (''alice'', data_of 1 2, 5, 4)"
proof -
  let ?st = "store_of [] [entry ''c0'' ''alice'' purchase 5 5 10]"
  let ?env = "env_at ''r1'' ''c1'' 20 0"
  let ?req = "submit_by ''alice'' 1 2"
  have c: "costPerRequest model_priced = Some 2 \<and> (2 :: rat) \<noteq> 0"
    by (simp add: model_priced_def)
  have pre: "authenticated ?req = Some ''alice''
        \<and> GenerationRequestSchema_safeParse (body ?req) = Some (data_of 1 2)
        \<and> \<not> rejects ?env AiModel_findFirst \<and> \<not> rejects ?env UserCredit_findMany
        \<and> aiModel_findFirst (ai_models ?st) (model_id (data_of 1 2)) = Some model_priced
        \<and> costPerRequest model_priced = Some 2 \<and> (2 :: rat) \<noteq> 0"
    by (simp add: handler_defs example_defs)
  have bal: "currentBalance (tie ?env) (user_credits ?st) ''alice'' = 5"
    by (simp add: handler_defs example_defs)
  have n: "num_outputs (data_of 1 2) = 2" by (simp add: data_of_def)
  note inst = requiredCredits_priced [where m = model_priced and d = 2 and req = ?req
      and u = "''alice''" and data = "data_of 1 2" and env = ?env and st = ?st]
  have "requiredCredits 3 model_priced = 6"
    using inst [where n = 3] c by simp
  moreover have "submit_check ?env ?st ?req = Inr (''alice'', data_of 1 2, 5, 4)"
    using inst [where n = 3] pre by (simp add: bal n)
  ultimately show ?thesis using c by simp
qed

text \<open>
  C5 as stated fails for a model with the price 0: two outputs require 2 credits, not
  \<open>2 \<times> 0\<close>, and a user with 1 credit is refused.
\<close>

theorem free_model_is_charged:
  "costPerRequest model_free = Some 0
   \<and> requiredCredits 2 model_free = 2
   \<and> requiredCredits 2 model_free \<noteq> of_int 2 * 0
   \<and> createGenerationRequest (env_at ''r1'' ''c1'' 20 0)
        (store_of [] [entry ''c0'' ''alice'' purchase 1 1 10]) (submit_by ''alice'' 2 2)
      = ((402, InsufficientCredits 2 1), store_of [] [entry ''c0'' ''alice'' purchase 1 1 10])"
  by (simp add: handler_defs example_defs)

text \<open>
  C7. Cancelling a request of the caller's whose status is \<open>completed\<close> or \<open>failed\<close>
  answers 400 and leaves the store as it was: no status update, no ledger entry. After a
  cancellation that answered 200 the request is \<open>failed\<close>, so a second cancellation of
  it is refused in this way and refunds nothing.
\<close>

theorem terminal_cancel_rejected:
  "(authenticated req = Some userId
      \<and> \<not> rejects env GenerationRequest_findFirst
      \<and> generationRequest_findFirst (generation_requests st) (request_id req) userId = Some request
      \<and> (status request = completed \<or> status request = failed) \<longrightarrow>
    cancelGenerationRequest env st req =
      ((400, Message (''Cannot cancel request with status: ''
                       @ RequestStatus_name (status request))), st))
   \<and> (fst (fst (cancelGenerationRequest env st req)) = 200
      \<and> \<not> rejects env2 GenerationRequest_findFirst \<longrightarrow>
    cancelGenerationRequest env2 (snd (cancelGenerationRequest env st req)) req =
      ((400, Message ''Cannot cancel request with status: failed''),
       snd (cancelGenerationRequest env st req)))"
proof (intro conjI impI)
  assume "authenticated req = Some userId
      \<and> \<not> rejects env GenerationRequest_findFirst
      \<and> generationRequest_findFirst (generation_requests st) (request_id req) userId = Some request
      \<and> (status request = completed \<or> status request = failed)"
  then show "cancelGenerationRequest env st req =
      ((400, Message (''Cannot cancel request with status: ''
                       @ RequestStatus_name (status request))), st)"
    using cancel_terminal [of req userId env st request] by blast
next
  assume a: "fst (fst (cancelGenerationRequest env st req)) = 200
      \<and> \<not> rejects env2 GenerationRequest_findFirst"
  let ?st' = "snd (cancelGenerationRequest env st req)"
  from cancel_200 [of env st req] a obtain u request where
    u: "authenticated req = Some u"
    and f: "generationRequest_findFirst (generation_requests st) (request_id req) u = Some request"
    and rows: "generation_requests ?st'
             = map (\<lambda>r. if gr_id r = request_id req
                         then r\<lparr> status := failed, errorMessage := Some ''Cancelled by user'',
                                 completedAt := Some (requestTime env) \<rparr>
                         else r) (generation_requests st)"
    by blast
  have found: "generationRequest_findFirst (generation_requests ?st') (request_id req) u
      = Some (request\<lparr> status := failed, errorMessage := Some ''Cancelled by user'',
                       completedAt := Some (requestTime env) \<rparr>)"
    unfolding rows using f by (rule findFirst_after_update)
  from cancel_terminal [OF u _ found] a
  show "cancelGenerationRequest env2 ?st' req =
      ((400, Message ''Cannot cancel request with status: failed''), ?st')"
    by simp
qed

theorem terminal_cancel_rejected_witness:
  "generationRequest_findFirst
      (generation_requests
         (store_of [(new_GenerationRequest (env_at ''r1'' ''c1'' 20 0) ''alice'' (data_of 1 2) None 4)
                      \<lparr> status := completed \<rparr>]
            (user_credits store_charged))) ''r1'' ''alice''
     = Some ((new_GenerationRequest (env_at ''r1'' ''c1'' 20 0) ''alice'' (data_of 1 2) None 4)
               \<lparr> status := completed \<rparr>)
   \<and> cancelGenerationRequest (env_at ''r9'' ''c2'' 30 0)
        (store_of [(new_GenerationRequest (env_at ''r1'' ''c1'' 20 0) ''alice'' (data_of 1 2) None 4)
                     \<lparr> status := completed \<rparr>]
           (user_credits store_charged)) (about ''alice'' ''r1'')
      = ((400, Message ''Cannot cancel request with status: completed''),
         store_of [(new_GenerationRequest (env_at ''r1'' ''c1'' 20 0) ''alice'' (data_of 1 2) None 4)
                     \<lparr> status := completed \<rparr>]
           (user_credits store_charged))
   \<and> fst (fst (cancelGenerationRequest (env_at ''r9'' ''c2'' 30 0) store_charged
                 (about ''alice'' ''r1''))) = 200
   \<and> cancelGenerationRequest (env_at ''r8'' ''c3'' 40 0)
        (snd (cancelGenerationRequest (env_at ''r9'' ''c2'' 30 0) store_charged
                (about ''alice'' ''r1''))) (about ''alice'' ''r1'')
      = ((400, Message ''Cannot cancel request with status: failed''),
         snd (cancelGenerationRequest (env_at ''r9'' ''c2'' 30 0) store_charged
                (about ''alice'' ''r1'')))"
proof -
  let ?done = "(new_GenerationRequest (env_at ''r1'' ''c1'' 20 0) ''alice'' (data_of 1 2) None 4)
                 \<lparr> status := completed \<rparr>"
  let ?st = "store_of [?done] (user_credits store_charged)"
  let ?req = "about ''alice'' ''r1''"
  let ?env = "env_at ''r9'' ''c2'' 30 0"
  have a: "authenticated ?req = Some ''alice''"
    by (simp add: authenticated_def about_def submit_by_def)
  have ok: "\<not> rejects ?env GenerationRequest_findFirst"
    "\<not> rejects (env_at ''r8'' ''c3'' 40 0) GenerationRequest_findFirst"
    by (simp_all add: env_at_def)
  have f: "generationRequest_findFirst (generation_requests ?st) (request_id ?req) ''alice''
       = Some ?done"
    by (simp add: generationRequest_findFirst_def store_of_def about_def
        submit_by_def new_GenerationRequest_def env_at_def)
  have s: "status ?done = completed \<or> status ?done = failed" by simp
  have n: "request_id ?req = ''r1''" "status ?done = completed" by (simp_all add: about_def)
  have first: "fst (fst (cancelGenerationRequest ?env store_charged ?req)) = 200"
    by (simp add: example_cancelled)
  note inst = terminal_cancel_rejected [where req = ?req and userId = "''alice''"
      and env = ?env and ?env2.0 = "env_at ''r8'' ''c3'' 40 0"]
  have one: "cancelGenerationRequest ?env ?st ?req
      = ((400, Message ''Cannot cancel request with status: completed''), ?st)"
    using inst [where st = ?st and request = ?done] a ok f s by (simp add: n)
  have two: "cancelGenerationRequest (env_at ''r8'' ''c3'' 40 0)
        (snd (cancelGenerationRequest ?env store_charged ?req)) ?req
      = ((400, Message ''Cannot cancel request with status: failed''),
         snd (cancelGenerationRequest ?env store_charged ?req))"
    using inst [where st = store_charged and request = ?done] first ok by blast
  from f one first two show ?thesis by (simp add: n)
qed

text \<open>
  C8. \<open>getGenerationRequestById\<close> never changes the store. When the caller owns no
  request with the given identifier, the answer is the same whether a request with that
  identifier exists for another user or no such request exists at all: 404 with the
  message \<open>Generation request not found\<close> when the store accepts the query.
\<close>

theorem foreign_request_not_found:
  assumes "authenticated req = Some userId"
    and "\<not> list_ex (\<lambda>r. gr_id r = request_id req \<and> gr_userId r = userId) (generation_requests st)"
    and "\<not> list_ex (\<lambda>r. gr_id r = request_id req) (generation_requests st0)"
  shows "fst (getGenerationRequestById env st req) = fst (getGenerationRequestById env st0 req)
       \<and> (\<not> rejects env GenerationRequest_findFirst \<longrightarrow>
            fst (getGenerationRequestById env st req)
              = (404, Message ''Generation request not found''))
       \<and> snd (getGenerationRequestById env st req) = st
       \<and> snd (getGenerationRequestById env' st' req') = st'"
proof -
  have none: "generationRequest_findFirst (generation_requests st) (request_id req) userId = None"
    using assms(2) by (auto simp: generationRequest_findFirst_def find_None_iff list_ex_iff)
  have none0: "generationRequest_findFirst (generation_requests st0) (request_id req) userId = None"
    using assms(3) by (auto simp: generationRequest_findFirst_def find_None_iff list_ex_iff)
  have pure: "\<And>e s r. snd (getGenerationRequestById e s r) = s"
    by (simp add: getGenerationRequestById_def Let_def split: option.splits)
  show ?thesis
    using assms(1) none none0 pure by (simp add: getGenerationRequestById_def Let_def)
qed

theorem foreign_request_not_found_witness:
  "authenticated (about ''bob'' ''r1'') = Some ''bob''
   \<and> list_ex (\<lambda>r. gr_id r = ''r1'' \<and> gr_userId r = ''alice'') (generation_requests store_charged)
   \<and> \<not> list_ex (\<lambda>r. gr_id r = ''r1'' \<and> gr_userId r = ''bob'') (generation_requests store_charged)
   \<and> \<not> list_ex (\<lambda>r. gr_id r = ''r1'') (generation_requests (store_of [] []))
   \<and> fst (getGenerationRequestById (env_at ''r9'' ''c2'' 30 0) store_charged (about ''bob'' ''r1''))
       = (404, Message ''Generation request not found'')
   \<and> fst (getGenerationRequestById (env_at ''r9'' ''c2'' 30 0) (store_of [] []) (about ''bob'' ''r1''))
       = (404, Message ''Generation request not found'')
   \<and> fst (fst (getGenerationRequestById (env_at ''r9'' ''c2'' 30 0) store_charged
                 (about ''alice'' ''r1''))) = 200"
proof -
  let ?req = "about ''bob'' ''r1''"
  let ?env = "env_at ''r9'' ''c2'' 30 0"
  have a: "authenticated ?req = Some ''bob''"
    by (simp add: authenticated_def about_def submit_by_def)
  have n: "request_id ?req = ''r1''" by (simp add: about_def)
  have own: "list_ex (\<lambda>r. gr_id r = ''r1'' \<and> gr_userId r = ''alice'') (generation_requests store_charged)"
    by (simp add: store_charged_def store_of_def new_GenerationRequest_def env_at_def)
  have foreign: "\<not> list_ex (\<lambda>r. gr_id r = request_id ?req \<and> gr_userId r = ''bob'')
                    (generation_requests store_charged)"
    by (simp add: n store_charged_def store_of_def new_GenerationRequest_def env_at_def)
  have absent: "\<not> list_ex (\<lambda>r. gr_id r = request_id ?req) (generation_requests (store_of [] []))"
    by (simp add: store_of_def)
  have ok: "\<not> rejects ?env GenerationRequest_findFirst" by (simp add: env_at_def)
  have mine: "fst (fst (getGenerationRequestById ?env store_charged (about ''alice'' ''r1''))) = 200"
    by (simp add: getGenerationRequestById_def authenticated_def about_def submit_by_def
        generationRequest_findFirst_def store_charged_def store_of_def new_GenerationRequest_def
        env_at_def Let_def)
  from foreign_request_not_found [OF a foreign absent, of ?env ?env store_charged ?req] ok
  have "fst (getGenerationRequestById ?env store_charged ?req)
          = (404, Message ''Generation request not found'')
      \<and> fst (getGenerationRequestById ?env (store_of [] []) ?req)
          = (404, Message ''Generation request not found'')"
    by metis
  with a own foreign absent mine show ?thesis by (simp add: n)
qed

lemmas fractional_defs = model_half_def model_three_halves_def store_fractional_def

text \<open>
  C1. When the balance the handler resolved is strictly less than \<open>requiredCredits\<close>,
  \<open>createGenerationRequest\<close> answers 402 with \<open>required\<close> and \<open>available\<close> and
  leaves the store as it was: no request row, no ledger entry. Whatever the call does, a
  ledger entry it appends is a consumption whose \<open>balanceAfter\<close>, the balance read
  minus \<open>requiredCredits\<close> as the column takes it, is not negative.
\<close>

theorem insufficient_credits_rejected:
  assumes "authenticated req = Some userId"
    and "GenerationRequestSchema_safeParse (body req) = Some data"
    and "\<not> rejects env AiModel_findFirst"
    and "aiModel_findFirst (ai_models st) (model_id data) = Some model"
    and "\<not> rejects env UserCredit_findMany"
  shows "(of_int (currentBalance (tie env) (user_credits st) userId)
            < requiredCredits (num_outputs data) model \<longrightarrow>
          createGenerationRequest env st req =
            ((402, InsufficientCredits (requiredCredits (num_outputs data) model)
                     (currentBalance (tie env) (user_credits st) userId)), st))
       \<and> (user_credits (snd (createGenerationRequest env st req)) = user_credits st
          \<or> (\<exists>c. user_credits (snd (createGenerationRequest env st req)) = user_credits st @ [c]
                 \<and> transactionType c = consumption
                 \<and> balanceAfter c
                     = toward_zero (of_int (currentBalance (tie env) (user_credits st) userId)
                                    - requiredCredits (num_outputs data) model)
                 \<and> 0 \<le> balanceAfter c))"
proof (cases "of_int (currentBalance (tie env) (user_credits st) userId)
            < requiredCredits (num_outputs data) model")
  case True
  then show ?thesis
    using submit_check_ok [OF assms] by (simp add: createGenerationRequest_def)
next
  case False
  let ?bal = "currentBalance (tie env) (user_credits st) userId"
  let ?r = "requiredCredits (num_outputs data) model"
  have run: "createGenerationRequest env st req = submit_write env st (userId, data, ?bal, ?r)"
    using submit_check_ok [OF assms] False by (simp add: createGenerationRequest_def)
  have "0 \<le> toward_zero (of_int ?bal - ?r)"
    using False by (intro toward_zero_nonneg) simp
  then show ?thesis
    using submit_write_cases [of env st userId data ?bal ?r] False unfolding run
    by (auto simp: new_UserCredit_def prisma_Int_Some)
qed

theorem insufficient_credits_rejected_witness:
  "authenticated (submit_by ''alice'' 1 2) = Some ''alice''
   \<and> GenerationRequestSchema_safeParse (body (submit_by ''alice'' 1 2)) = Some (data_of 1 2)
   \<and> aiModel_findFirst (ai_models (store_of [] [entry ''c0'' ''alice'' purchase 1 1 10])) 1 = Some model_priced
   \<and> currentBalance (pick_at 0) [entry ''c0'' ''alice'' purchase 1 1 10] ''alice'' = 1
   \<and> requiredCredits 2 model_priced = 4
   \<and> createGenerationRequest (env_at ''r1'' ''c1'' 20 0)
        (store_of [] [entry ''c0'' ''alice'' purchase 1 1 10]) (submit_by ''alice'' 1 2)
      = ((402, InsufficientCredits 4 1), store_of [] [entry ''c0'' ''alice'' purchase 1 1 10])"
proof -
  let ?st = "store_of [] [entry ''c0'' ''alice'' purchase 1 1 10]"
  let ?env = "env_at ''r1'' ''c1'' 20 0"
  have a: "authenticated (submit_by ''alice'' 1 2) = Some ''alice''"
    by (simp add: authenticated_def submit_by_def)
  have p: "GenerationRequestSchema_safeParse (body (submit_by ''alice'' 1 2)) = Some (data_of 1 2)"
    by (simp add: GenerationRequestSchema_safeParse_def submit_by_def data_of_def)
  have r1: "\<not> rejects ?env AiModel_findFirst" and r2: "\<not> rejects ?env UserCredit_findMany"
    by (simp_all add: env_at_def)
  have m: "aiModel_findFirst (ai_models ?st) (model_id (data_of 1 2)) = Some model_priced"
    by (simp add: handler_defs example_defs)
  have b: "currentBalance (pick_at 0) [entry ''c0'' ''alice'' purchase 1 1 10] ''alice'' = 1"
    by (simp add: currentBalance_def userCredit_findMany_def latest_entries_def entry_def pick_at_def)
  have c: "requiredCredits 2 model_priced = 4"
    by (simp add: requiredCredits_def model_priced_def)
  have t: "tie ?env = (pick_at 0)" "user_credits ?st = [entry ''c0'' ''alice'' purchase 1 1 10]"
    "num_outputs (data_of 1 2) = 2" "model_id (data_of 1 2) = 1"
    by (simp_all add: env_at_def store_of_def data_of_def)
  from insufficient_credits_rejected [OF a p r1 m r2]
  have "createGenerationRequest ?env ?st (submit_by ''alice'' 1 2)
          = ((402, InsufficientCredits 4 1), ?st)"
    unfolding t b c by simp
  with a p m b c show ?thesis unfolding t by simp
qed

text \<open>
  C2, as the code has it. A submit that answers 202 has appended exactly one request, with
  status \<open>pending\<close> and \<open>creditsCharged\<close> the integer the column makes of
  \<open>requiredCredits\<close>, and exactly one consumption entry for it, with
  \<open>amount = -creditsCharged\<close> and \<open>balanceAfter\<close> the integer the column makes of the
  balance read minus \<open>requiredCredits\<close>; for a whole \<open>requiredCredits\<close> these are
  \<open>requiredCredits\<close> and the balance minus \<open>requiredCredits\<close>. The two rows are
  written by two store calls, not by one atomic unit: when the seed converts, the request
  is written and the ledger write rejects, the handler answers 500 and the request stays
  in the store without a debit.
\<close>

theorem accepted_submit_writes:
  "(createGenerationRequest env st req = ((202, b), st') \<longrightarrow>
      (\<exists>userId data model r c.
           authenticated req = Some userId
         \<and> GenerationRequestSchema_safeParse (body req) = Some data
         \<and> aiModel_findFirst (ai_models st) (model_id data) = Some model
         \<and> b = Accepted (gr_id r)
         \<and> st' = st\<lparr> generation_requests := generation_requests st @ [r],
                       user_credits := user_credits st @ [c] \<rparr>
         \<and> gr_userId r = userId \<and> status r = pending
         \<and> creditsCharged r = toward_zero (requiredCredits (num_outputs data) model)
         \<and> uc_userId c = userId \<and> uc_requestId c = Some (gr_id r)
         \<and> transactionType c = consumption
         \<and> amount c = - creditsCharged r
         \<and> balanceAfter c
             = toward_zero (of_int (currentBalance (tie env) (user_credits st) userId)
                            - requiredCredits (num_outputs data) model)
         \<and> (\<forall>n. requiredCredits (num_outputs data) model = of_int n \<longrightarrow>
                creditsCharged r = n
              \<and> balanceAfter c = currentBalance (tie env) (user_credits st) userId - n)))
   \<and> (authenticated req = Some u
        \<and> GenerationRequestSchema_safeParse (body req) = Some d
        \<and> aiModel_findFirst (ai_models st) (model_id d) = Some m
        \<and> \<not> of_int (currentBalance (tie env) (user_credits st) u)
              < requiredCredits (num_outputs d) m
        \<and> data_seed d = Some s \<and> fits_BigInt s
        \<and> prisma_Int (requiredCredits (num_outputs d) m) = Some n
        \<and> \<not> rejects env AiModel_findFirst \<and> \<not> rejects env UserCredit_findMany
        \<and> \<not> rejects env GenerationRequest_create \<and> rejects env UserCredit_create \<longrightarrow>
      createGenerationRequest env st req =
        ((500, Message ''Failed to create generation request''),
         st\<lparr> generation_requests := generation_requests st
                @ [new_GenerationRequest env u d s n] \<rparr>))"
proof (intro conjI impI)
  assume "createGenerationRequest env st req = ((202, b), st')"
  from submit_accepted [OF this] obtain userId data model s where
    f: "authenticated req = Some userId"
       "GenerationRequestSchema_safeParse (body req) = Some data"
       "aiModel_findFirst (ai_models st) (model_id data) = Some model"
       "b = Accepted (requestUuid env)"
       "st' = st\<lparr> generation_requests := generation_requests st
                         @ [new_GenerationRequest env userId data s
                              (toward_zero (requiredCredits (num_outputs data) model))],
                       user_credits := user_credits st
                         @ [new_UserCredit env userId (requestUuid env) consumption
                              (- toward_zero (requiredCredits (num_outputs data) model))
                              (toward_zero (of_int (currentBalance (tie env) (user_credits st) userId)
                                            - requiredCredits (num_outputs data) model))
                              (''Credit deduction for generation request '' @ requestUuid env)] \<rparr>"
    by blast
  have whole: "\<forall>n. requiredCredits (num_outputs data) model = of_int n \<longrightarrow>
      toward_zero (requiredCredits (num_outputs data) model) = n
      \<and> toward_zero (of_int (currentBalance (tie env) (user_credits st) userId)
                      - requiredCredits (num_outputs data) model)
          = currentBalance (tie env) (user_credits st) userId - n"
    by (simp flip: of_int_diff)
  show "\<exists>userId data model r c.
           authenticated req = Some userId
         \<and> GenerationRequestSchema_safeParse (body req) = Some data
         \<and> aiModel_findFirst (ai_models st) (model_id data) = Some model
         \<and> b = Accepted (gr_id r)
         \<and> st' = st\<lparr> generation_requests := generation_requests st @ [r],
                       user_credits := user_credits st @ [c] \<rparr>
         \<and> gr_userId r = userId \<and> status r = pending
         \<and> creditsCharged r = toward_zero (requiredCredits (num_outputs data) model)
         \<and> uc_userId c = userId \<and> uc_requestId c = Some (gr_id r)
         \<and> transactionType c = consumption
         \<and> amount c = - creditsCharged r
         \<and> balanceAfter c
             = toward_zero (of_int (currentBalance (tie env) (user_credits st) userId)
                            - requiredCredits (num_outputs data) model)
         \<and> (\<forall>n. requiredCredits (num_outputs data) model = of_int n \<longrightarrow>
                creditsCharged r = n
              \<and> balanceAfter c = currentBalance (tie env) (user_credits st) userId - n)"
    using f whole
    by (intro exI [of _ userId] exI [of _ data] exI [of _ model]
        exI [of _ "new_GenerationRequest env userId data s
                              (toward_zero (requiredCredits (num_outputs data) model))"]
        exI [of _ "new_UserCredit env userId (requestUuid env) consumption
                              (- toward_zero (requiredCredits (num_outputs data) model))
                              (toward_zero (of_int (currentBalance (tie env) (user_credits st) userId)
                                            - requiredCredits (num_outputs data) model))
                              (''Credit deduction for generation request '' @ requestUuid env)"])
       (simp add: new_GenerationRequest_def new_UserCredit_def)
next
  assume a: "authenticated req = Some u
        \<and> GenerationRequestSchema_safeParse (body req) = Some d
        \<and> aiModel_findFirst (ai_models st) (model_id d) = Some m
        \<and> \<not> of_int (currentBalance (tie env) (user_credits st) u)
              < requiredCredits (num_outputs d) m
        \<and> data_seed d = Some s \<and> fits_BigInt s
        \<and> prisma_Int (requiredCredits (num_outputs d) m) = Some n
        \<and> \<not> rejects env AiModel_findFirst \<and> \<not> rejects env UserCredit_findMany
        \<and> \<not> rejects env GenerationRequest_create \<and> rejects env UserCredit_create"
  then have "submit_check env st req
               = Inr (u, d, currentBalance (tie env) (user_credits st) u,
                      requiredCredits (num_outputs d) m)"
    using submit_check_ok [of req u d env st m] by simp
  then show "createGenerationRequest env st req =
        ((500, Message ''Failed to create generation request''),
         st\<lparr> generation_requests := generation_requests st
                @ [new_GenerationRequest env u d s n] \<rparr>)"
    using a by (simp add: createGenerationRequest_def submit_write_half)
qed

text \<open>
  C2 as stated fails twice. With 5 credits and a request for 4, a rejected ledger write
  leaves the new request in the store and the ledger as it was. And at half a credit an
  output the accepted request holds \<open>creditsCharged = 0\<close> and its debit the amount 0
  and \<open>balanceAfter = 4\<close>, where \<open>requiredCredits\<close> is a half and the balance was 5.
\<close>

theorem request_without_debit:
  "createGenerationRequest (env_ledger_down ''r1'' ''c1'' 20 0)
      (store_of [] [entry ''c0'' ''alice'' purchase 5 5 10]) (submit_by ''alice'' 1 2)
   = ((500, Message ''Failed to create generation request''),
      store_of [new_GenerationRequest (env_ledger_down ''r1'' ''c1'' 20 0) ''alice'' (data_of 1 2) None 4]
        [entry ''c0'' ''alice'' purchase 5 5 10])
   \<and> requiredCredits 1 model_half = 1 / 2
   \<and> fst (createGenerationRequest (env_at ''r1'' ''c1'' 20 0)
        (store_fractional [entry ''c0'' ''alice'' purchase 5 5 10]) (submit_by ''alice'' 4 1))
      = (202, Accepted ''r1'')
   \<and> map creditsCharged (generation_requests (snd (createGenerationRequest
        (env_at ''r1'' ''c1'' 20 0)
        (store_fractional [entry ''c0'' ''alice'' purchase 5 5 10]) (submit_by ''alice'' 4 1))))
      = [0]
   \<and> map amount (user_credits (snd (createGenerationRequest (env_at ''r1'' ''c1'' 20 0)
        (store_fractional [entry ''c0'' ''alice'' purchase 5 5 10]) (submit_by ''alice'' 4 1))))
      = [5, 0]
   \<and> map balanceAfter (user_credits (snd (createGenerationRequest (env_at ''r1'' ''c1'' 20 0)
        (store_fractional [entry ''c0'' ''alice'' purchase 5 5 10]) (submit_by ''alice'' 4 1))))
      = [5, 4]"
  by (simp add: handler_defs example_defs fractional_defs)

theorem accepted_submit_writes_witness:
  "createGenerationRequest (env_at ''r1'' ''c1'' 20 0)
      (store_of [] [entry ''c0'' ''alice'' purchase 5 5 10]) (submit_by ''alice'' 1 2)
   = ((202, Accepted ''r1''),
      store_of [new_GenerationRequest (env_at ''r1'' ''c1'' 20 0) ''alice'' (data_of 1 2) None 4]
        [entry ''c0'' ''alice'' purchase 5 5 10,
         new_UserCredit (env_at ''r1'' ''c1'' 20 0) ''alice'' ''r1'' consumption (- 4) 1
           ''Credit deduction for generation request r1''])
   \<and> (\<exists>r c. store_of [new_GenerationRequest (env_at ''r1'' ''c1'' 20 0) ''alice'' (data_of 1 2) None 4]
               [entry ''c0'' ''alice'' purchase 5 5 10,
                new_UserCredit (env_at ''r1'' ''c1'' 20 0) ''alice'' ''r1'' consumption (- 4) 1
                  ''Credit deduction for generation request r1'']
             = (store_of [] [entry ''c0'' ''alice'' purchase 5 5 10])
                 \<lparr> generation_requests := [r],
                   user_credits := [entry ''c0'' ''alice'' purchase 5 5 10, c] \<rparr>
           \<and> status r = pending \<and> transactionType c = consumption
           \<and> amount c = - creditsCharged r \<and> uc_requestId c = Some (gr_id r))
   \<and> rejects (env_ledger_down ''r1'' ''c1'' 20 0) UserCredit_create
   \<and> createGenerationRequest (env_ledger_down ''r1'' ''c1'' 20 0)
        (store_of [] [entry ''c0'' ''alice'' purchase 5 5 10]) (submit_by ''alice'' 1 2)
      = ((500, Message ''Failed to create generation request''),
         (store_of [] [entry ''c0'' ''alice'' purchase 5 5 10])
           \<lparr> generation_requests :=
               [new_GenerationRequest (env_ledger_down ''r1'' ''c1'' 20 0) ''alice'' (data_of 1 2) None 4] \<rparr>)"
proof -
  let ?st = "store_of [] [entry ''c0'' ''alice'' purchase 5 5 10]"
  let ?st' = "store_of [new_GenerationRequest (env_at ''r1'' ''c1'' 20 0) ''alice'' (data_of 1 2) None 4]
        [entry ''c0'' ''alice'' purchase 5 5 10,
         new_UserCredit (env_at ''r1'' ''c1'' 20 0) ''alice'' ''r1'' consumption (- 4) 1
           ''Credit deduction for generation request r1'']"
  let ?req = "submit_by ''alice'' 1 2"
  let ?down = "env_ledger_down ''r1'' ''c1'' 20 0"
  have run: "createGenerationRequest (env_at ''r1'' ''c1'' 20 0) ?st ?req
               = ((202, Accepted ''r1''), ?st')"
    by (simp add: handler_defs example_defs)
  have pre: "authenticated ?req = Some ''alice''
        \<and> GenerationRequestSchema_safeParse (body ?req) = Some (data_of 1 2)
        \<and> aiModel_findFirst (ai_models ?st) (model_id (data_of 1 2)) = Some model_priced
        \<and> \<not> of_int (currentBalance (tie ?down) (user_credits ?st) ''alice'')
              < requiredCredits (num_outputs (data_of 1 2)) model_priced
        \<and> data_seed (data_of 1 2) = Some None \<and> fits_BigInt None
        \<and> prisma_Int (requiredCredits (num_outputs (data_of 1 2)) model_priced) = Some 4
        \<and> \<not> rejects ?down AiModel_findFirst \<and> \<not> rejects ?down UserCredit_findMany
        \<and> \<not> rejects ?down GenerationRequest_create \<and> rejects ?down UserCredit_create"
    by (simp add: handler_defs example_defs)
  note inst1 = accepted_submit_writes [where env = "env_at ''r1'' ''c1'' 20 0" and st = ?st
      and req = ?req and b = "Accepted ''r1''" and st' = ?st'
      and u = "''alice''" and d = "data_of 1 2" and m = model_priced and n = 4
      and s = None]
  note inst2 = accepted_submit_writes [where env = ?down and st = ?st
      and req = ?req and b = "Accepted ''r1''" and st' = ?st'
      and u = "''alice''" and d = "data_of 1 2" and m = model_priced and n = 4
      and s = None]
  from inst1 run obtain r c where
    rc: "?st' = ?st\<lparr> generation_requests := generation_requests ?st @ [r],
                      user_credits := user_credits ?st @ [c] \<rparr>"
      "status r = pending" "transactionType c = consumption"
      "amount c = - creditsCharged r" "uc_requestId c = Some (gr_id r)"
    by blast
  have ex: "\<exists>r c. ?st' = ?st\<lparr> generation_requests := [r],
                   user_credits := [entry ''c0'' ''alice'' purchase 5 5 10, c] \<rparr>
           \<and> status r = pending \<and> transactionType c = consumption
           \<and> amount c = - creditsCharged r \<and> uc_requestId c = Some (gr_id r)"
    using rc by (intro exI [of _ r] exI [of _ c]) (simp add: store_of_def)
  have down: "createGenerationRequest ?down ?st ?req
      = ((500, Message ''Failed to create generation request''),
         ?st\<lparr> generation_requests := [new_GenerationRequest ?down ''alice'' (data_of 1 2) None 4] \<rparr>)"
    using inst2 pre by (simp add: store_of_def)
  from run ex pre down show ?thesis by blast
qed

text \<open>
  C4, as the code has it. Let every price of the catalog be a whole number, let the
  entries of a user form a chain (each \<open>balanceAfter\<close> is the one before it plus the
  entry's amount, the first one its own amount) and carry strictly increasing transaction
  times, and let the clock reading of the call be later than all of them. Then after one
  run of \<open>createGenerationRequest\<close> or of \<open>cancelGenerationRequest\<close> that no other
  write to the ledger interrupts, the user's entries still form such a chain, the old
  ledger is a prefix of the new one (no entry is updated or deleted), and the balance is
  the sum of the user's amounts and the \<open>balanceAfter\<close> of the user's last entry.
\<close>

theorem ledger_chain_preserved:
  assumes "whole_prices (ai_models st)"
    and "ledger_chain u (user_credits st)"
    and "times_increasing u (user_credits st)"
    and "all_before (creditTime env) u (user_credits st)"
    and "st' = snd (createGenerationRequest env st req)
         \<or> st' = snd (cancelGenerationRequest env st req)"
  shows "ledger_chain u (user_credits st')
       \<and> times_increasing u (user_credits st')
       \<and> (\<exists>es. user_credits st' = user_credits st @ es)
       \<and> currentBalance pick (user_credits st') u
           = sum_list (map amount (entries_of u (user_credits st')))
       \<and> currentBalance pick (user_credits st') u
           = (if entries_of u (user_credits st') = [] then 0
              else balanceAfter (last (entries_of u (user_credits st'))))"
proof -
  have step: "user_credits st' = user_credits st
       \<or> (\<exists>c. user_credits st' = user_credits st @ [c]
              \<and> balanceAfter c = currentBalance (tie env) (user_credits st) (uc_userId c) + amount c
              \<and> transactionTime c = creditTime env)"
    using assms(5) submit_ledger_step [OF assms(1), of env req]
      cancel_ledger_step [of env st req]
    by blast
  from step_preserves [OF assms(2-4) step]
  have inv: "ledger_chain u (user_credits st')" "times_increasing u (user_credits st')"
    and app: "\<exists>es. user_credits st' = user_credits st @ es" by blast+
  from balance_of_chain [OF inv, of pick] inv app show ?thesis by blast
qed

lemma store_tied_ledger:
  "user_credits store_tied =
     [entry ''c0'' ''alice'' purchase 10 10 10,
      new_UserCredit (env_at ''r1'' ''c1'' 10 0) ''alice'' ''r1'' consumption (- 4) 6
        ''Credit deduction for generation request r1'']"
  by (simp add: store_tied_def handler_defs example_defs)

theorem ledger_chain_preserved_witness:
  "whole_prices (ai_models store_charged)
   \<and> ledger_chain ''alice'' (user_credits store_charged)
   \<and> times_increasing ''alice'' (user_credits store_charged)
   \<and> all_before (creditTime (env_at ''r9'' ''c2'' 30 0)) ''alice'' (user_credits store_charged)
   \<and> ledger_chain ''alice''
        (user_credits (snd (createGenerationRequest (env_at ''r9'' ''c2'' 30 0) store_charged
                              (submit_by ''alice'' 3 1))))
   \<and> currentBalance (pick_at 0)
        (user_credits (snd (createGenerationRequest (env_at ''r9'' ''c2'' 30 0) store_charged
                              (submit_by ''alice'' 3 1)))) ''alice'' = 0
   \<and> ledger_chain ''alice''
        (user_credits (snd (cancelGenerationRequest (env_at ''r9'' ''c2'' 30 0) store_charged
                              (about ''alice'' ''r1''))))
   \<and> currentBalance (pick_at 0)
        (user_credits (snd (cancelGenerationRequest (env_at ''r9'' ''c2'' 30 0) store_charged
                              (about ''alice'' ''r1'')))) ''alice'' = 5"
proof -
  let ?env = "env_at ''r9'' ''c2'' 30 0"
  let ?submitted = "snd (createGenerationRequest ?env store_charged (submit_by ''alice'' 3 1))"
  let ?cancelled = "snd (cancelGenerationRequest ?env store_charged (about ''alice'' ''r1''))"
  have whole: "whole_prices (ai_models store_charged)"
    by (simp add: whole_prices_def store_charged_def example_defs)
  have ch: "ledger_chain ''alice'' (user_credits store_charged)"
    by (simp add: ledger_chain_def entries_of_def store_charged_def store_of_def entry_def
        new_UserCredit_def)
  have inc: "times_increasing ''alice'' (user_credits store_charged)"
    by (simp add: times_increasing_def entries_of_def store_charged_def store_of_def entry_def
        new_UserCredit_def env_at_def)
  have before: "all_before (creditTime ?env) ''alice'' (user_credits store_charged)"
    by (simp add: all_before_def entries_of_def store_charged_def store_of_def entry_def
        new_UserCredit_def env_at_def)
  have total1: "sum_list (map amount (entries_of ''alice'' (user_credits ?submitted))) = 0"
    by (simp add: store_charged_def handler_defs example_defs entries_of_def)
  have total2: "sum_list (map amount (entries_of ''alice'' (user_credits ?cancelled))) = 5"
    unfolding example_cancelled
    by (simp add: store_of_def entries_of_def entry_def new_UserCredit_def)
  from ledger_chain_preserved [OF whole ch inc before, of ?submitted "submit_by ''alice'' 3 1" "pick_at 0"]
  have s: "ledger_chain ''alice'' (user_credits ?submitted)
      \<and> currentBalance (pick_at 0) (user_credits ?submitted) ''alice'' = 0"
    using total1 by simp
  from ledger_chain_preserved [OF whole ch inc before, of ?cancelled "about ''alice'' ''r1''" "pick_at 0"]
  have c: "ledger_chain ''alice'' (user_credits ?cancelled)
      \<and> currentBalance (pick_at 0) (user_credits ?cancelled) ''alice'' = 5"
    using total2 by simp
  from whole ch inc before s c show ?thesis by simp
qed

text \<open>
  C4 as stated fails, in three ways. In \<open>store_tied\<close> the purchase of 10 and the debit
  of 4 carry the same transaction time and form a chain; the next submit reads the
  balance from the purchase, which the database may return first, and appends a debit of
  4 with \<open>balanceAfter = 6\<close> after an entry whose \<open>balanceAfter\<close> is 6: the chain is
  broken, and the balance is 6 while the amounts sum to 2. At one and a half credits an
  output, with strictly increasing times, the debit after a balance of 10 has the amount
  -1 and \<open>balanceAfter = 8\<close>. And when two submits both check before either writes, the
  times 10, 20, 21 increase strictly and the second debit does not continue the first.
\<close>

theorem chain_broken_by_tie:
  "ledger_chain ''alice'' (user_credits store_tied)
   \<and> \<not> ledger_chain ''alice''
        (user_credits (snd (createGenerationRequest (env_at ''r2'' ''c2'' 20 0) store_tied
                              (submit_by ''alice'' 1 2))))
   \<and> currentBalance (pick_at 0)
        (user_credits (snd (createGenerationRequest (env_at ''r2'' ''c2'' 20 0) store_tied
                              (submit_by ''alice'' 1 2)))) ''alice'' = 6
   \<and> sum_list (map amount (entries_of ''alice''
        (user_credits (snd (createGenerationRequest (env_at ''r2'' ''c2'' 20 0) store_tied
                              (submit_by ''alice'' 1 2)))))) = 2
   \<and> times_increasing ''alice''
        (user_credits (snd (createGenerationRequest (env_at ''r1'' ''c1'' 20 0)
           (store_fractional [entry ''c0'' ''alice'' purchase 10 10 10]) (submit_by ''alice'' 5 1))))
   \<and> map amount
        (user_credits (snd (createGenerationRequest (env_at ''r1'' ''c1'' 20 0)
           (store_fractional [entry ''c0'' ''alice'' purchase 10 10 10]) (submit_by ''alice'' 5 1))))
       = [10, - 1]
   \<and> map balanceAfter
        (user_credits (snd (createGenerationRequest (env_at ''r1'' ''c1'' 20 0)
           (store_fractional [entry ''c0'' ''alice'' purchase 10 10 10]) (submit_by ''alice'' 5 1))))
       = [10, 8]
   \<and> map transactionTime
        (user_credits (snd (snd (run_two Both_check_then_A_B
           (env_at ''r1'' ''c1'' 20 0) (env_at ''r2'' ''c2'' 21 0)
           (store_of [] [entry ''c0'' ''alice'' purchase 4 4 10])
           (submit_by ''alice'' 1 2) (submit_by ''alice'' 1 2)))))
       = [10, 20, 21]
   \<and> \<not> ledger_chain ''alice''
        (user_credits (snd (snd (run_two Both_check_then_A_B
           (env_at ''r1'' ''c1'' 20 0) (env_at ''r2'' ''c2'' 21 0)
           (store_of [] [entry ''c0'' ''alice'' purchase 4 4 10])
           (submit_by ''alice'' 1 2) (submit_by ''alice'' 1 2)))))"
proof -
  have after: "user_credits (snd (createGenerationRequest (env_at ''r2'' ''c2'' 20 0) store_tied
                              (submit_by ''alice'' 1 2)))
     = [entry ''c0'' ''alice'' purchase 10 10 10,
        new_UserCredit (env_at ''r1'' ''c1'' 10 0) ''alice'' ''r1'' consumption (- 4) 6
          ''Credit deduction for generation request r1'',
        new_UserCredit (env_at ''r2'' ''c2'' 20 0) ''alice'' ''r2'' consumption (- 4) 6
          ''Credit deduction for generation request r2'']"
    by (simp add: store_tied_def handler_defs example_defs)
  have tied: "ledger_chain ''alice'' (user_credits store_tied)
   \<and> \<not> ledger_chain ''alice''
        (user_credits (snd (createGenerationRequest (env_at ''r2'' ''c2'' 20 0) store_tied
                              (submit_by ''alice'' 1 2))))
   \<and> currentBalance (pick_at 0)
        (user_credits (snd (createGenerationRequest (env_at ''r2'' ''c2'' 20 0) store_tied
                              (submit_by ''alice'' 1 2)))) ''alice'' = 6
   \<and> sum_list (map amount (entries_of ''alice''
        (user_credits (snd (createGenerationRequest (env_at ''r2'' ''c2'' 20 0) store_tied
                              (submit_by ''alice'' 1 2)))))) = 2"
    unfolding after store_tied_ledger
    by (simp add: ledger_chain_def entries_of_def currentBalance_def userCredit_findMany_def
        latest_entries_def new_UserCredit_def example_defs)
  have fractional: "user_credits (snd (createGenerationRequest (env_at ''r1'' ''c1'' 20 0)
           (store_fractional [entry ''c0'' ''alice'' purchase 10 10 10]) (submit_by ''alice'' 5 1)))
     = [entry ''c0'' ''alice'' purchase 10 10 10,
        new_UserCredit (env_at ''r1'' ''c1'' 20 0) ''alice'' ''r1'' consumption (- 1) 8
          ''Credit deduction for generation request r1'']"
    by (simp add: handler_defs example_defs fractional_defs)
  have interleaved: "user_credits (snd (snd (run_two Both_check_then_A_B
           (env_at ''r1'' ''c1'' 20 0) (env_at ''r2'' ''c2'' 21 0)
           (store_of [] [entry ''c0'' ''alice'' purchase 4 4 10])
           (submit_by ''alice'' 1 2) (submit_by ''alice'' 1 2))))
     = [entry ''c0'' ''alice'' purchase 4 4 10,
        new_UserCredit (env_at ''r1'' ''c1'' 20 0) ''alice'' ''r1'' consumption (- 4) 0
          ''Credit deduction for generation request r1'',
        new_UserCredit (env_at ''r2'' ''c2'' 21 0) ''alice'' ''r2'' consumption (- 4) 0
          ''Credit deduction for generation request r2'']"
    by (simp add: submit_finish_def handler_defs example_defs)
  show ?thesis
    unfolding fractional interleaved using tied
    by (simp add: ledger_chain_def times_increasing_def entries_of_def new_UserCredit_def
        example_defs)
qed

text \<open>
  C6, as the code has it. The caller cancels a request of their own that is \<open>pending\<close>
  or \<open>processing\<close>. When the store accepts the calls and \<open>creditsCharged\<close> and the
  current balance plus \<open>creditsCharged\<close> fit the \<open>Int\<close> column, the answer is 200
  with \<open>refunded_credits = creditsCharged\<close>; the request is then \<open>failed\<close> with the
  error message \<open>Cancelled by user\<close> and \<open>completedAt\<close> set, and no other request
  has changed; for \<open>creditsCharged > 0\<close> exactly one refund entry is appended, with
  \<open>amount = creditsCharged\<close> and \<open>balanceAfter\<close> the current balance plus
  \<open>creditsCharged\<close>, and for \<open>creditsCharged = 0\<close> the ledger is as it was. The
  status update and the refund are two store calls: when \<open>creditsCharged > 0\<close> and the
  refund write rejects, by the store or because a value does not fit the column, the
  answer is 500, the request is \<open>failed\<close> all the same and nothing is refunded.
\<close>

theorem cancel_refunds:
  assumes "authenticated req = Some userId"
    and "generationRequest_findFirst (generation_requests st) (request_id req) userId = Some request"
    and "status request = pending \<or> status request = processing"
  shows "((\<forall>c. \<not> rejects env c) \<and> fits_Int (creditsCharged request)
          \<and> fits_Int (currentBalance (tie env) (user_credits st) userId + creditsCharged request)
          \<longrightarrow>
            fst (cancelGenerationRequest env st req) = (200, Cancelled (creditsCharged request))
          \<and> generationRequest_findFirst
               (generation_requests (snd (cancelGenerationRequest env st req))) (request_id req) userId
              = Some (request\<lparr> status := failed, errorMessage := Some ''Cancelled by user'',
                               completedAt := Some (requestTime env) \<rparr>)
          \<and> generation_requests (snd (cancelGenerationRequest env st req))
              = map (\<lambda>r. if gr_id r = request_id req
                          then r\<lparr> status := failed, errorMessage := Some ''Cancelled by user'',
                                  completedAt := Some (requestTime env) \<rparr>
                          else r) (generation_requests st)
          \<and> (0 < creditsCharged request \<longrightarrow>
               (\<exists>c. user_credits (snd (cancelGenerationRequest env st req)) = user_credits st @ [c]
                   \<and> uc_userId c = userId \<and> uc_requestId c = Some (gr_id request)
                   \<and> transactionType c = refund
                   \<and> amount c = creditsCharged request
                   \<and> balanceAfter c
                       = currentBalance (tie env) (user_credits st) userId + creditsCharged request))
          \<and> (creditsCharged request = 0 \<longrightarrow>
               user_credits (snd (cancelGenerationRequest env st req)) = user_credits st))
       \<and> (\<not> rejects env GenerationRequest_findFirst \<and> \<not> rejects env GenerationRequest_update
          \<and> \<not> rejects env UserCredit_findMany \<and> 0 < creditsCharged request
          \<and> (rejects env UserCredit_create \<or> \<not> fits_Int (creditsCharged request)
              \<or> \<not> fits_Int (currentBalance (tie env) (user_credits st) userId
                               + creditsCharged request))
          \<longrightarrow>
            cancelGenerationRequest env st req =
              ((500, Message ''Failed to cancel generation request''),
               st\<lparr> generation_requests :=
                      map (\<lambda>r. if gr_id r = request_id req
                                then r\<lparr> status := failed,
                                        errorMessage := Some ''Cancelled by user'',
                                        completedAt := Some (requestTime env) \<rparr>
                                else r) (generation_requests st) \<rparr>))"
proof (intro conjI impI)
  assume ok: "(\<forall>c. \<not> rejects env c) \<and> fits_Int (creditsCharged request)
          \<and> fits_Int (currentBalance (tie env) (user_credits st) userId + creditsCharged request)"
  then have run: "cancelGenerationRequest env st req =
           ((200, Cancelled (creditsCharged request)),
            (if creditsCharged request > 0
             then st\<lparr> generation_requests :=
                        map (\<lambda>r. if gr_id r = request_id req
                                  then r\<lparr> status := failed,
                                          errorMessage := Some ''Cancelled by user'',
                                          completedAt := Some (requestTime env) \<rparr>
                                  else r) (generation_requests st),
                      user_credits := user_credits st @
                        [new_UserCredit env userId (gr_id request) refund (creditsCharged request)
                           (currentBalance (tie env) (user_credits st) userId + creditsCharged request)
                           (''Credit refund for cancelled request '' @ gr_id request)] \<rparr>
             else st\<lparr> generation_requests :=
                        map (\<lambda>r. if gr_id r = request_id req
                                  then r\<lparr> status := failed,
                                          errorMessage := Some ''Cancelled by user'',
                                          completedAt := Some (requestTime env) \<rparr>
                                  else r) (generation_requests st) \<rparr>))"
    using cancel_ok [OF assms, of env] by blast
  show rows: "generation_requests (snd (cancelGenerationRequest env st req))
           = map (\<lambda>r. if gr_id r = request_id req
                       then r\<lparr> status := failed, errorMessage := Some ''Cancelled by user'',
                               completedAt := Some (requestTime env) \<rparr>
                       else r) (generation_requests st)"
    unfolding run by simp
  show "generationRequest_findFirst
            (generation_requests (snd (cancelGenerationRequest env st req))) (request_id req) userId
           = Some (request\<lparr> status := failed, errorMessage := Some ''Cancelled by user'',
                            completedAt := Some (requestTime env) \<rparr>)"
    unfolding rows using assms(2) by (rule findFirst_after_update)
  show "fst (cancelGenerationRequest env st req) = (200, Cancelled (creditsCharged request))"
    unfolding run by simp
  show "creditsCharged request = 0 \<Longrightarrow>
            user_credits (snd (cancelGenerationRequest env st req)) = user_credits st"
    unfolding run by simp
  show "0 < creditsCharged request \<Longrightarrow>
            (\<exists>c. user_credits (snd (cancelGenerationRequest env st req)) = user_credits st @ [c]
                \<and> uc_userId c = userId \<and> uc_requestId c = Some (gr_id request)
                \<and> transactionType c = refund
                \<and> amount c = creditsCharged request
                \<and> balanceAfter c
                    = currentBalance (tie env) (user_credits st) userId + creditsCharged request)"
    unfolding run by (simp add: new_UserCredit_def)
next
  assume "\<not> rejects env GenerationRequest_findFirst \<and> \<not> rejects env GenerationRequest_update
          \<and> \<not> rejects env UserCredit_findMany \<and> 0 < creditsCharged request
          \<and> (rejects env UserCredit_create \<or> \<not> fits_Int (creditsCharged request)
              \<or> \<not> fits_Int (currentBalance (tie env) (user_credits st) userId
                               + creditsCharged request))"
  then show "cancelGenerationRequest env st req =
              ((500, Message ''Failed to cancel generation request''),
               st\<lparr> generation_requests :=
                      map (\<lambda>r. if gr_id r = request_id req
                                then r\<lparr> status := failed,
                                        errorMessage := Some ''Cancelled by user'',
                                        completedAt := Some (requestTime env) \<rparr>
                                else r) (generation_requests st) \<rparr>)"
    using cancel_refund_lost [OF assms, of env] by blast
qed

text \<open>
  C6 as stated fails. The caller holds 2147483647 credits and cancels a pending request
  charged 4: the request becomes \<open>failed\<close>, the refund entry with
  \<open>balanceAfter = 2147483651\<close> does not fit the column, the ledger stays as it was and
  the answer is 500.
\<close>

theorem refund_lost:
  "generationRequest_findFirst (generation_requests store_full) ''r1'' ''alice''
     = Some (new_GenerationRequest (env_at ''r1'' ''c1'' 20 0) ''alice'' (data_of 1 2) None 4)
   \<and> currentBalance (pick_at 0) (user_credits store_full) ''alice'' = 2147483647
   \<and> cancelGenerationRequest (env_at ''r9'' ''c2'' 30 0) store_full (about ''alice'' ''r1'')
      = ((500, Message ''Failed to cancel generation request''),
         store_full\<lparr> generation_requests :=
           [(new_GenerationRequest (env_at ''r1'' ''c1'' 20 0) ''alice'' (data_of 1 2) None 4)
              \<lparr> status := failed, errorMessage := Some ''Cancelled by user'',
                completedAt := Some 30 \<rparr>] \<rparr>)"
  by (simp add: store_full_def store_charged_def cancel_defs handler_defs example_defs)

theorem cancel_refunds_witness:
  "authenticated (about ''alice'' ''r1'') = Some ''alice''
   \<and> generationRequest_findFirst (generation_requests store_charged) ''r1'' ''alice''
       = Some (new_GenerationRequest (env_at ''r1'' ''c1'' 20 0) ''alice'' (data_of 1 2) None 4)
   \<and> status (new_GenerationRequest (env_at ''r1'' ''c1'' 20 0) ''alice'' (data_of 1 2) None 4)
       = pending
   \<and> creditsCharged (new_GenerationRequest (env_at ''r1'' ''c1'' 20 0) ''alice'' (data_of 1 2) None 4)
       = 4
   \<and> fits_Int 4 \<and> fits_Int (1 + 4) \<and> \<not> fits_Int (2147483647 + 4)
   \<and> fst (cancelGenerationRequest (env_at ''r9'' ''c2'' 30 0) store_charged (about ''alice'' ''r1''))
       = (200, Cancelled 4)
   \<and> (\<exists>c. user_credits (snd (cancelGenerationRequest (env_at ''r9'' ''c2'' 30 0) store_charged
                                (about ''alice'' ''r1'')))
             = user_credits store_charged @ [c]
          \<and> transactionType c = refund \<and> amount c = 4 \<and> balanceAfter c = 5)
   \<and> creditsCharged (new_GenerationRequest (env_at ''r1'' ''c1'' 20 0) ''bob'' (data_of 1 1) None 0)
       = 0
   \<and> fst (cancelGenerationRequest (env_at ''r9'' ''c2'' 30 0)
        (store_of [new_GenerationRequest (env_at ''r1'' ''c1'' 20 0) ''bob'' (data_of 1 1) None 0] [])
        (about ''bob'' ''r1'')) = (200, Cancelled 0)
   \<and> user_credits (snd (cancelGenerationRequest (env_at ''r9'' ''c2'' 30 0)
        (store_of [new_GenerationRequest (env_at ''r1'' ''c1'' 20 0) ''bob'' (data_of 1 1) None 0] [])
        (about ''bob'' ''r1''))) = []
   \<and> fst (cancelGenerationRequest (env_at ''r9'' ''c2'' 30 0) store_full (about ''alice'' ''r1''))
       = (500, Message ''Failed to cancel generation request'')
   \<and> user_credits (snd (cancelGenerationRequest (env_at ''r9'' ''c2'' 30 0) store_full
                           (about ''alice'' ''r1''))) = user_credits store_full"
proof -
  let ?req = "about ''alice'' ''r1''"
  let ?env = "env_at ''r9'' ''c2'' 30 0"
  let ?request = "new_GenerationRequest (env_at ''r1'' ''c1'' 20 0) ''alice'' (data_of 1 2) None 4"
  let ?gift = "new_GenerationRequest (env_at ''r1'' ''c1'' 20 0) ''bob'' (data_of 1 1) None 0"
  have a: "authenticated ?req = Some ''alice''"
    by (simp add: authenticated_def about_def submit_by_def)
  have f: "generationRequest_findFirst (generation_requests store_charged) (request_id ?req) ''alice''
       = Some ?request"
    by (simp add: generationRequest_findFirst_def store_charged_def store_of_def about_def
        submit_by_def new_GenerationRequest_def env_at_def)
  have f': "generationRequest_findFirst (generation_requests store_full) (request_id ?req) ''alice''
       = Some ?request"
    using f by (simp add: store_full_def)
  have s: "status ?request = pending \<or> status ?request = processing"
    by (simp add: new_GenerationRequest_def)
  have ok: "\<forall>c. \<not> rejects ?env c" by (simp add: env_at_def)
  have n: "creditsCharged ?request = 4" "request_id ?req = ''r1''" "status ?request = pending"
    by (simp_all add: new_GenerationRequest_def about_def)
  have fit: "fits_Int 4" "fits_Int (1 + 4)" "\<not> fits_Int (2147483647 + 4)" "fits_Int 0"
    by (simp_all add: fits_Int_def)
  have bal: "currentBalance (tie ?env) (user_credits store_charged) ''alice'' = 1"
    by (simp add: store_charged_def handler_defs example_defs)
  have bal': "currentBalance (tie ?env) (user_credits store_full) ''alice'' = 2147483647"
    by (simp add: store_full_def store_charged_def handler_defs example_defs)
  from cancel_refunds [OF a f s, of ?env] ok fit
  have one: "fst (cancelGenerationRequest ?env store_charged ?req) = (200, Cancelled 4)
      \<and> (\<exists>c. user_credits (snd (cancelGenerationRequest ?env store_charged ?req))
                = user_credits store_charged @ [c]
             \<and> transactionType c = refund \<and> amount c = 4 \<and> balanceAfter c = 5)"
    unfolding n bal by auto
  have a0: "authenticated (about ''bob'' ''r1'') = Some ''bob''"
    by (simp add: authenticated_def about_def submit_by_def)
  have f0: "generationRequest_findFirst (generation_requests (store_of [?gift] []))
              (request_id (about ''bob'' ''r1'')) ''bob'' = Some ?gift"
    by (simp add: generationRequest_findFirst_def store_of_def about_def
        submit_by_def new_GenerationRequest_def env_at_def)
  have s0: "status ?gift = pending \<or> status ?gift = processing"
    by (simp add: new_GenerationRequest_def)
  have z: "creditsCharged ?gift = 0" by (simp add: new_GenerationRequest_def)
  have bal0: "currentBalance (tie ?env) (user_credits (store_of [?gift] [])) ''bob'' = 0"
    by (simp add: handler_defs example_defs)
  from cancel_refunds [OF a0 f0 s0, of ?env] ok fit
  have two: "fst (cancelGenerationRequest ?env (store_of [?gift] []) (about ''bob'' ''r1''))
          = (200, Cancelled 0)
      \<and> user_credits (snd (cancelGenerationRequest ?env (store_of [?gift] [])
                               (about ''bob'' ''r1''))) = []"
    unfolding z bal0 by (simp add: store_of_def)
  from cancel_refunds [OF a f' s, of ?env] ok fit
  have "cancelGenerationRequest ?env store_full ?req =
      ((500, Message ''Failed to cancel generation request''),
       store_full\<lparr> generation_requests :=
              map (\<lambda>r. if gr_id r = request_id ?req
                        then r\<lparr> status := failed,
                                errorMessage := Some ''Cancelled by user'',
                                completedAt := Some (requestTime ?env) \<rparr>
                        else r) (generation_requests store_full) \<rparr>)"
    unfolding n(1) bal' by simp
  then have three: "fst (cancelGenerationRequest ?env store_full ?req)
          = (500, Message ''Failed to cancel generation request'')
      \<and> user_credits (snd (cancelGenerationRequest ?env store_full ?req))
          = user_credits store_full"
    by simp
  from a f n fit one z two three show ?thesis by simp
qed

lemma toward_zero_zero [simp]: "toward_zero 0 = 0"
  by (simp add: toward_zero_def)

lemma second_submit_refused:
  assumes a1: "authenticated req1 = Some u" and a2: "authenticated req2 = Some u"
    and p1: "GenerationRequestSchema_safeParse (body req1) = Some data1"
    and p2: "GenerationRequestSchema_safeParse (body req2) = Some data2"
    and m1: "aiModel_findFirst (ai_models st) (model_id data1) = Some model1"
    and m2: "aiModel_findFirst (ai_models st) (model_id data2) = Some model2"
    and c1: "requiredCredits (num_outputs data1) model1 = of_int cost"
    and c2: "requiredCredits (num_outputs data2) model2 = of_int cost"
    and pos: "0 < cost" and fit: "fits_Int cost"
    and s1: "data_seed data1 = Some seed1" "fits_BigInt seed1"
    and bal: "currentBalance (tie env1) (user_credits st) u = cost"
    and before: "all_before (creditTime env1) u (user_credits st)"
    and ok1: "\<forall>c. \<not> rejects env1 c"
    and ok2: "\<not> rejects env2 AiModel_findFirst" "\<not> rejects env2 UserCredit_findMany"
  shows "fst (createGenerationRequest env1 st req1) = (202, Accepted (requestUuid env1))
       \<and> createGenerationRequest env2 (snd (createGenerationRequest env1 st req1)) req2
           = ((402, InsufficientCredits (of_int cost) 0),
              snd (createGenerationRequest env1 st req1))"
proof -
  let ?c = "new_UserCredit env1 u (requestUuid env1) consumption (- cost) 0
              (''Credit deduction for generation request '' @ requestUuid env1)"
  let ?st1 = "st\<lparr> generation_requests := generation_requests st
                     @ [new_GenerationRequest env1 u data1 seed1 cost],
                  user_credits := user_credits st @ [?c] \<rparr>"
  have fits: "prisma_Int (of_int cost) = Some cost" "prisma_Int (- of_int cost) = Some (- cost)"
    "prisma_Int (of_int cost - of_int cost) = Some 0"
    using pos fit by (simp_all add: prisma_Int_def toward_zero_neg fits_Int_def)
  have chk: "submit_check env1 st req1 = Inr (u, data1, cost, of_int cost)"
    using submit_check_ok [OF a1 p1 _ m1] ok1 bal c1 by simp
  have run1: "createGenerationRequest env1 st req1 = ((202, Accepted (requestUuid env1)), ?st1)"
    using chk ok1 submit_write_ok [OF s1 _ _ fits, of env1 st u]
    by (simp add: createGenerationRequest_def)
  have "all_before (transactionTime ?c) u (user_credits st)" "uc_userId ?c = u"
    using before by (simp_all add: new_UserCredit_def)
  then have "userCredit_findMany (tie env2) (user_credits st @ [?c]) u = [?c]"
    by (rule findMany_snoc_later)
  then have bal2: "currentBalance (tie env2) (user_credits ?st1) u = 0"
    by (simp add: currentBalance_def new_UserCredit_def)
  have m2': "aiModel_findFirst (ai_models ?st1) (model_id data2) = Some model2"
    using m2 by simp
  have "submit_check env2 ?st1 req2 = Inl (402, InsufficientCredits (of_int cost) 0)"
    using submit_check_ok [OF a2 p2 ok2(1) m2' ok2(2)] bal2 c2 pos by simp
  then have "createGenerationRequest env2 ?st1 req2
               = ((402, InsufficientCredits (of_int cost) 0), ?st1)"
    by (simp add: createGenerationRequest_def)
  with run1 show ?thesis by simp
qed

lemma both_checked_accepted:
  assumes a1: "authenticated req1 = Some u" and a2: "authenticated req2 = Some u"
    and p1: "GenerationRequestSchema_safeParse (body req1) = Some data1"
    and p2: "GenerationRequestSchema_safeParse (body req2) = Some data2"
    and m1: "aiModel_findFirst (ai_models st) (model_id data1) = Some model1"
    and m2: "aiModel_findFirst (ai_models st) (model_id data2) = Some model2"
    and c1: "requiredCredits (num_outputs data1) model1 = of_int cost"
    and c2: "requiredCredits (num_outputs data2) model2 = of_int cost"
    and pos: "0 < cost" and fit: "fits_Int cost"
    and s1: "data_seed data1 = Some seed1" "fits_BigInt seed1"
    and s2: "data_seed data2 = Some seed2" "fits_BigInt seed2"
    and bal1: "currentBalance (tie env1) (user_credits st) u = cost"
    and bal2: "currentBalance (tie env2) (user_credits st) u = cost"
    and ok1: "\<forall>c. \<not> rejects env1 c" and ok2: "\<forall>c. \<not> rejects env2 c"
  shows "fst (submit_finish env1 st (submit_check env1 st req1))
           = (202, Accepted (requestUuid env1))
       \<and> fst (submit_finish env2 (snd (submit_finish env1 st (submit_check env1 st req1)))
                 (submit_check env2 st req2))
           = (202, Accepted (requestUuid env2))"
proof -
  have fits: "prisma_Int (of_int cost) = Some cost" "prisma_Int (- of_int cost) = Some (- cost)"
    "prisma_Int (of_int cost - of_int cost) = Some 0"
    using pos fit by (simp_all add: prisma_Int_def toward_zero_neg fits_Int_def)
  have chk1: "submit_check env1 st req1 = Inr (u, data1, cost, of_int cost)"
    using submit_check_ok [OF a1 p1 _ m1] ok1 bal1 c1 by simp
  have chk2: "submit_check env2 st req2 = Inr (u, data2, cost, of_int cost)"
    using submit_check_ok [OF a2 p2 _ m2] ok2 bal2 c2 by simp
  show ?thesis
    unfolding chk1 chk2 using ok1 ok2
    by (simp add: submit_finish_def submit_write_ok [OF s1 _ _ fits]
        submit_write_ok [OF s2 _ _ fits])
qed

text \<open>
  C9, as the code has it. Two submits of one user whose balance is the cost of each of
  them, a positive whole number that fits the \<open>Int\<close> column; their seeds convert and
  the store accepts every call. Run one after the other, with the first debit stamped
  later than the user's entries, the first is accepted and the second answers 402 with
  nothing available, in either order. The balance check and the debit are separate store
  calls and nothing keeps the second handler from reading the balance before the first
  has written its debit: when both check before either writes, both are accepted.
\<close>

theorem sequential_submits_one_succeeds:
  assumes "authenticated reqA = Some u" and "authenticated reqB = Some u"
    and "GenerationRequestSchema_safeParse (body reqA) = Some dataA"
    and "GenerationRequestSchema_safeParse (body reqB) = Some dataB"
    and "aiModel_findFirst (ai_models st) (model_id dataA) = Some modelA"
    and "aiModel_findFirst (ai_models st) (model_id dataB) = Some modelB"
    and "requiredCredits (num_outputs dataA) modelA = of_int cost"
    and "requiredCredits (num_outputs dataB) modelB = of_int cost"
    and "0 < cost" and "fits_Int cost"
    and "data_seed dataA = Some seedA" and "fits_BigInt seedA"
    and "data_seed dataB = Some seedB" and "fits_BigInt seedB"
    and "currentBalance (tie envA) (user_credits st) u = cost"
    and "currentBalance (tie envB) (user_credits st) u = cost"
    and "all_before (creditTime envA) u (user_credits st)"
    and "all_before (creditTime envB) u (user_credits st)"
    and "\<forall>c. \<not> rejects envA c" and "\<forall>c. \<not> rejects envB c"
  shows "fst (run_two A_then_B envA envB st reqA reqB) = (202, Accepted (requestUuid envA))
       \<and> fst (snd (run_two A_then_B envA envB st reqA reqB))
           = (402, InsufficientCredits (of_int cost) 0)
       \<and> fst (run_two B_then_A envA envB st reqA reqB)
           = (402, InsufficientCredits (of_int cost) 0)
       \<and> fst (snd (run_two B_then_A envA envB st reqA reqB))
           = (202, Accepted (requestUuid envB))
       \<and> fst (run_two Both_check_then_A_B envA envB st reqA reqB)
           = (202, Accepted (requestUuid envA))
       \<and> fst (snd (run_two Both_check_then_A_B envA envB st reqA reqB))
           = (202, Accepted (requestUuid envB))
       \<and> fst (run_two Both_check_then_B_A envA envB st reqA reqB)
           = (202, Accepted (requestUuid envA))
       \<and> fst (snd (run_two Both_check_then_B_A envA envB st reqA reqB))
           = (202, Accepted (requestUuid envB))"
proof -
  from second_submit_refused [OF assms(1,2,3,4,5,6,7,8,9,10,11,12,15,17,19), of envB] assms(20)
  have ab: "fst (createGenerationRequest envA st reqA) = (202, Accepted (requestUuid envA))
       \<and> createGenerationRequest envB (snd (createGenerationRequest envA st reqA)) reqB
           = ((402, InsufficientCredits (of_int cost) 0),
              snd (createGenerationRequest envA st reqA))"
    by simp
  from second_submit_refused [OF assms(2,1,4,3,6,5,8,7,9,10,13,14,16,18,20), of envA] assms(19)
  have ba: "fst (createGenerationRequest envB st reqB) = (202, Accepted (requestUuid envB))
       \<and> createGenerationRequest envA (snd (createGenerationRequest envB st reqB)) reqA
           = ((402, InsufficientCredits (of_int cost) 0),
              snd (createGenerationRequest envB st reqB))"
    by simp
  note x = both_checked_accepted [OF assms(1,2,3,4,5,6,7,8,9,10,11,12,13,14,15,16,19,20)]
  note y = both_checked_accepted [OF assms(2,1,4,3,6,5,8,7,9,10,13,14,11,12,16,15,20,19)]
  show ?thesis
    using ab ba x y by (simp add: split_beta Let_def)
qed

theorem sequential_submits_one_succeeds_witness:
  "currentBalance (pick_at 0) [entry ''c0'' ''alice'' purchase 4 4 10] ''alice'' = 4
   \<and> requiredCredits 2 model_priced = 4
   \<and> all_before 20 ''alice'' [entry ''c0'' ''alice'' purchase 4 4 10]
   \<and> all_before 21 ''alice'' [entry ''c0'' ''alice'' purchase 4 4 10]
   \<and> fst (run_two A_then_B (env_at ''r1'' ''c1'' 20 0) (env_at ''r2'' ''c2'' 21 0)
             (store_of [] [entry ''c0'' ''alice'' purchase 4 4 10])
             (submit_by ''alice'' 1 2) (submit_by ''alice'' 1 2)) = (202, Accepted ''r1'')
   \<and> fst (snd (run_two A_then_B (env_at ''r1'' ''c1'' 20 0) (env_at ''r2'' ''c2'' 21 0)
             (store_of [] [entry ''c0'' ''alice'' purchase 4 4 10])
             (submit_by ''alice'' 1 2) (submit_by ''alice'' 1 2)))
       = (402, InsufficientCredits 4 0)
   \<and> fst (run_two B_then_A (env_at ''r1'' ''c1'' 20 0) (env_at ''r2'' ''c2'' 21 0)
             (store_of [] [entry ''c0'' ''alice'' purchase 4 4 10])
             (submit_by ''alice'' 1 2) (submit_by ''alice'' 1 2))
       = (402, InsufficientCredits 4 0)
   \<and> fst (snd (run_two B_then_A (env_at ''r1'' ''c1'' 20 0) (env_at ''r2'' ''c2'' 21 0)
             (store_of [] [entry ''c0'' ''alice'' purchase 4 4 10])
             (submit_by ''alice'' 1 2) (submit_by ''alice'' 1 2))) = (202, Accepted ''r2'')"
proof -
  let ?ledger = "[entry ''c0'' ''alice'' purchase 4 4 10]"
  let ?st = "store_of [] ?ledger"
  let ?A = "env_at ''r1'' ''c1'' 20 0"
  let ?B = "env_at ''r2'' ''c2'' 21 0"
  let ?req = "submit_by ''alice'' 1 2"
  have a: "authenticated ?req = Some ''alice''"
    by (simp add: authenticated_def submit_by_def)
  have p: "GenerationRequestSchema_safeParse (body ?req) = Some (data_of 1 2)"
    by (simp add: GenerationRequestSchema_safeParse_def submit_by_def data_of_def)
  have m: "aiModel_findFirst (ai_models ?st) (model_id (data_of 1 2)) = Some model_priced"
    by (simp add: handler_defs example_defs)
  have c: "requiredCredits (num_outputs (data_of 1 2)) model_priced = of_int 4"
    by (simp add: requiredCredits_def example_defs)
  have pos: "(0 :: int) < 4" by simp
  have fit: "fits_Int 4" by (simp add: fits_Int_def)
  have sd: "data_seed (data_of 1 2) = Some None" "fits_BigInt None"
    by (simp_all add: data_seed_def fits_BigInt_def data_of_def)
  have bal: "currentBalance (pick_at 0) ?ledger ''alice'' = 4"
    by (simp add: currentBalance_def userCredit_findMany_def latest_entries_def example_defs)
  have balA: "currentBalance (tie ?A) (user_credits ?st) ''alice'' = 4"
    and balB: "currentBalance (tie ?B) (user_credits ?st) ''alice'' = 4"
    using bal by (simp_all add: env_at_def store_of_def)
  have b20: "all_before 20 ''alice'' ?ledger" and b21: "all_before 21 ''alice'' ?ledger"
    by (simp_all add: all_before_def entries_of_def entry_def)
  have bA: "all_before (creditTime ?A) ''alice'' (user_credits ?st)"
    and bB: "all_before (creditTime ?B) ''alice'' (user_credits ?st)"
    using b20 b21 by (simp_all add: env_at_def store_of_def)
  have okA: "\<forall>c. \<not> rejects ?A c" and okB: "\<forall>c. \<not> rejects ?B c"
    by (simp_all add: env_at_def)
  have n: "requestUuid ?A = ''r1''" "requestUuid ?B = ''r2''" "num_outputs (data_of 1 2) = 2"
    by (simp_all add: env_at_def data_of_def)
  from sequential_submits_one_succeeds [OF a a p p m m c c pos fit sd sd balA balB bA bB okA okB]
  show ?thesis using bal c b20 b21 by (simp add: n)
qed

text \<open>
  C9 as stated fails. A user holds 4 credits, the cost of one request. When both handlers
  finish their balance check before either writes, both read 4, both are accepted, and
  the ledger ends with two debits of 4 against one purchase of 4.
\<close>

theorem double_spend:
  "fst (run_two Both_check_then_A_B (env_at ''r1'' ''c1'' 20 0) (env_at ''r2'' ''c2'' 21 0)
          (store_of [] [entry ''c0'' ''alice'' purchase 4 4 10])
          (submit_by ''alice'' 1 2) (submit_by ''alice'' 1 2)) = (202, Accepted ''r1'')
   \<and> fst (snd (run_two Both_check_then_A_B (env_at ''r1'' ''c1'' 20 0) (env_at ''r2'' ''c2'' 21 0)
          (store_of [] [entry ''c0'' ''alice'' purchase 4 4 10])
          (submit_by ''alice'' 1 2) (submit_by ''alice'' 1 2))) = (202, Accepted ''r2'')
   \<and> map amount (user_credits (snd (snd
        (run_two Both_check_then_A_B (env_at ''r1'' ''c1'' 20 0) (env_at ''r2'' ''c2'' 21 0)
          (store_of [] [entry ''c0'' ''alice'' purchase 4 4 10])
          (submit_by ''alice'' 1 2) (submit_by ''alice'' 1 2))))) = [4, - 4, - 4]
   \<and> map creditsCharged (generation_requests (snd (snd
        (run_two Both_check_then_A_B (env_at ''r1'' ''c1'' 20 0) (env_at ''r2'' ''c2'' 21 0)
          (store_of [] [entry ''c0'' ''alice'' purchase 4 4 10])
          (submit_by ''alice'' 1 2) (submit_by ''alice'' 1 2))))) = [4, 4]"
  by (simp add: submit_finish_def handler_defs example_defs)

lemma safeParse_num_outputs:
  "GenerationRequestSchema_safeParse b = Some data \<Longrightarrow>
     1 \<le> num_outputs data \<and> num_outputs data \<le> 4"
  by (auto simp: GenerationRequestSchema_safeParse_def Let_def
      split: option.splits if_splits)

text \<open>
  C10. When the selected model has no \<open>costPerRequest\<close> or the price 0, a request for
  \<open>num_outputs\<close> outputs requires \<open>num_outputs\<close> credits. A balance below that is
  refused with 402 and \<open>required = num_outputs\<close>; every such submit that is accepted
  has created the request with \<open>creditsCharged = num_outputs\<close> and appended a
  consumption entry of \<open>-num_outputs\<close> that lowers the balance by \<open>num_outputs\<close>;
  and with that balance it is accepted, when the store accepts the calls, the seed
  converts and the balance is a value of the column. The request is neither free nor
  refused for its price.
\<close>

theorem fallback_price_one:
  assumes "authenticated req = Some userId"
    and "GenerationRequestSchema_safeParse (body req) = Some data"
    and "aiModel_findFirst (ai_models st) (model_id data) = Some model"
    and "costPerRequest model = None \<or> costPerRequest model = Some 0"
  shows "requiredCredits (num_outputs data) model = of_int (num_outputs data)
       \<and> (\<not> rejects env AiModel_findFirst \<and> \<not> rejects env UserCredit_findMany
            \<and> currentBalance (tie env) (user_credits st) userId < num_outputs data \<longrightarrow>
          createGenerationRequest env st req =
            ((402, InsufficientCredits (of_int (num_outputs data))
                     (currentBalance (tie env) (user_credits st) userId)), st))
       \<and> (createGenerationRequest env st req = ((202, b), st') \<longrightarrow>
            (\<exists>r c. b = Accepted (gr_id r)
                 \<and> st' = st\<lparr> generation_requests := generation_requests st @ [r],
                               user_credits := user_credits st @ [c] \<rparr>
                 \<and> gr_userId r = userId \<and> status r = pending
                 \<and> numOutputs r = num_outputs data
                 \<and> creditsCharged r = num_outputs data
                 \<and> uc_userId c = userId \<and> uc_requestId c = Some (gr_id r)
                 \<and> transactionType c = consumption
                 \<and> amount c = - num_outputs data
                 \<and> balanceAfter c
                     = currentBalance (tie env) (user_credits st) userId - num_outputs data))
       \<and> ((\<forall>c. \<not> rejects env c) \<and> data_seed data = Some s \<and> fits_BigInt s
            \<and> num_outputs data \<le> currentBalance (tie env) (user_credits st) userId
            \<and> fits_Int (currentBalance (tie env) (user_credits st) userId) \<longrightarrow>
          fst (createGenerationRequest env st req) = (202, Accepted (requestUuid env)))"
proof (intro conjI impI)
  let ?bal = "currentBalance (tie env) (user_credits st) userId"
  let ?n = "num_outputs data"
  show r: "requiredCredits ?n model = of_int ?n"
    using assms(4) by (auto simp: requiredCredits_def)
  {
    assume "\<not> rejects env AiModel_findFirst \<and> \<not> rejects env UserCredit_findMany \<and> ?bal < ?n"
    then show "createGenerationRequest env st req =
            ((402, InsufficientCredits (of_int ?n) ?bal), st)"
      using submit_check_ok [OF assms(1,2) _ assms(3)] r
      by (simp add: createGenerationRequest_def)
  }
  {
    assume "createGenerationRequest env st req = ((202, b), st')"
    from submit_accepted [OF this] assms(1,2,3) obtain s0 where
      f: "b = Accepted (requestUuid env)"
         "st' = st\<lparr> generation_requests := generation_requests st
                         @ [new_GenerationRequest env userId data s0
                              (toward_zero (requiredCredits ?n model))],
                       user_credits := user_credits st
                         @ [new_UserCredit env userId (requestUuid env) consumption
                              (- toward_zero (requiredCredits ?n model))
                              (toward_zero (of_int ?bal - requiredCredits ?n model))
                              (''Credit deduction for generation request '' @ requestUuid env)] \<rparr>"
      by auto
    show "\<exists>r c. b = Accepted (gr_id r)
                 \<and> st' = st\<lparr> generation_requests := generation_requests st @ [r],
                               user_credits := user_credits st @ [c] \<rparr>
                 \<and> gr_userId r = userId \<and> status r = pending
                 \<and> numOutputs r = ?n
                 \<and> creditsCharged r = ?n
                 \<and> uc_userId c = userId \<and> uc_requestId c = Some (gr_id r)
                 \<and> transactionType c = consumption
                 \<and> amount c = - ?n
                 \<and> balanceAfter c = ?bal - ?n"
      using f unfolding r
      by (intro exI [of _ "new_GenerationRequest env userId data s0 ?n"]
          exI [of _ "new_UserCredit env userId (requestUuid env) consumption (- ?n) (?bal - ?n)
                       (''Credit deduction for generation request '' @ requestUuid env)"])
         (simp add: new_GenerationRequest_def new_UserCredit_def flip: of_int_diff)
  }
  {
    assume a: "(\<forall>c. \<not> rejects env c) \<and> data_seed data = Some s \<and> fits_BigInt s
            \<and> ?n \<le> ?bal \<and> fits_Int ?bal"
    have range: "1 \<le> ?n \<and> ?n \<le> 4" using assms(2) by (rule safeParse_num_outputs)
    have fits: "prisma_Int (of_int ?n) = Some ?n" "prisma_Int (- of_int ?n) = Some (- ?n)"
      "prisma_Int (of_int ?bal - of_int ?n) = Some (?bal - ?n)"
      using a range
      by (simp_all add: prisma_Int_def toward_zero_neg fits_Int_def flip: of_int_diff)
    have "submit_check env st req = Inr (userId, data, ?bal, of_int ?n)"
      using submit_check_ok [OF assms(1,2) _ assms(3)] a r by simp
    then show "fst (createGenerationRequest env st req) = (202, Accepted (requestUuid env))"
      using a submit_write_ok [OF _ _ _ _ fits, of data s env st userId]
      by (simp add: createGenerationRequest_def)
  }
qed

theorem fallback_price_one_witness:
  "authenticated (submit_by ''alice'' 3 2) = Some ''alice''
   \<and> GenerationRequestSchema_safeParse (body (submit_by ''alice'' 3 2)) = Some (data_of 3 2)
   \<and> aiModel_findFirst (ai_models (store_of [] [entry ''c0'' ''alice'' purchase 5 5 10])) 3
       = Some model_unpriced
   \<and> costPerRequest model_unpriced = None
   \<and> requiredCredits 2 model_unpriced = 2
   \<and> createGenerationRequest (env_at ''r1'' ''c1'' 20 0)
        (store_of [] [entry ''c0'' ''alice'' purchase 5 5 10]) (submit_by ''alice'' 3 2)
      = ((202, Accepted ''r1''),
         store_of [new_GenerationRequest (env_at ''r1'' ''c1'' 20 0) ''alice'' (data_of 3 2) None 2]
           [entry ''c0'' ''alice'' purchase 5 5 10,
            new_UserCredit (env_at ''r1'' ''c1'' 20 0) ''alice'' ''r1'' consumption (- 2) 3
              ''Credit deduction for generation request r1''])
   \<and> (\<exists>r c. generation_requests (snd (createGenerationRequest (env_at ''r1'' ''c1'' 20 0)
                 (store_of [] [entry ''c0'' ''alice'' purchase 5 5 10]) (submit_by ''alice'' 3 2)))
               = [r]
           \<and> user_credits (snd (createGenerationRequest (env_at ''r1'' ''c1'' 20 0)
                 (store_of [] [entry ''c0'' ''alice'' purchase 5 5 10]) (submit_by ''alice'' 3 2)))
               = [entry ''c0'' ''alice'' purchase 5 5 10, c]
           \<and> creditsCharged r = 2 \<and> transactionType c = consumption
           \<and> amount c = - 2 \<and> balanceAfter c = 3)
   \<and> createGenerationRequest (env_at ''r1'' ''c1'' 20 0)
        (store_of [] [entry ''c0'' ''alice'' purchase 1 1 10]) (submit_by ''alice'' 3 2)
      = ((402, InsufficientCredits 2 1), store_of [] [entry ''c0'' ''alice'' purchase 1 1 10])"
proof -
  let ?st = "store_of [] [entry ''c0'' ''alice'' purchase 5 5 10]"
  let ?poor = "store_of [] [entry ''c0'' ''alice'' purchase 1 1 10]"
  let ?env = "env_at ''r1'' ''c1'' 20 0"
  let ?req = "submit_by ''alice'' 3 2"
  let ?st' = "store_of [new_GenerationRequest ?env ''alice'' (data_of 3 2) None 2]
           [entry ''c0'' ''alice'' purchase 5 5 10,
            new_UserCredit ?env ''alice'' ''r1'' consumption (- 2) 3
              ''Credit deduction for generation request r1'']"
  have a: "authenticated ?req = Some ''alice''"
    by (simp add: authenticated_def submit_by_def)
  have p: "GenerationRequestSchema_safeParse (body ?req) = Some (data_of 3 2)"
    by (simp add: GenerationRequestSchema_safeParse_def submit_by_def data_of_def)
  have m: "aiModel_findFirst (ai_models ?st) (model_id (data_of 3 2)) = Some model_unpriced"
    by (simp add: handler_defs example_defs)
  have m': "aiModel_findFirst (ai_models ?poor) (model_id (data_of 3 2)) = Some model_unpriced"
    by (simp add: handler_defs example_defs)
  have c: "costPerRequest model_unpriced = None \<or> costPerRequest model_unpriced = Some 0"
    by (simp add: model_unpriced_def)
  have ok: "\<forall>c. \<not> rejects ?env c" by (simp add: env_at_def)
  have bal: "currentBalance (tie ?env) (user_credits ?st) ''alice'' = 5"
    by (simp add: handler_defs example_defs)
  have bal': "currentBalance (tie ?env) (user_credits ?poor) ''alice'' = 1"
    by (simp add: handler_defs example_defs)
  have n: "num_outputs (data_of 3 2) = 2" "model_id (data_of 3 2) = 3" "requestUuid ?env = ''r1''"
    by (simp_all add: data_of_def env_at_def)
  have sd: "data_seed (data_of 3 2) = Some None" "fits_BigInt None" "fits_Int 5"
    by (simp_all add: data_seed_def fits_BigInt_def data_of_def fits_Int_def)
  have run: "createGenerationRequest ?env ?st ?req = ((202, Accepted ''r1''), ?st')"
    by (simp add: handler_defs example_defs)
  note rich = fallback_price_one [OF a p m c, where env = ?env and b = "Accepted ''r1''"
      and st' = ?st' and s = None]
  note poor = fallback_price_one [OF a p m' c, where env = ?env]
  have req: "requiredCredits 2 model_unpriced = 2"
    using rich by (simp add: n)
  from rich run obtain r c where
    rc: "?st' = ?st\<lparr> generation_requests := generation_requests ?st @ [r],
                      user_credits := user_credits ?st @ [c] \<rparr>"
      "creditsCharged r = 2" "transactionType c = consumption" "amount c = - 2"
      "balanceAfter c = 3"
    unfolding n bal by auto
  have ex: "\<exists>r c. generation_requests (snd (createGenerationRequest ?env ?st ?req)) = [r]
           \<and> user_credits (snd (createGenerationRequest ?env ?st ?req))
               = [entry ''c0'' ''alice'' purchase 5 5 10, c]
           \<and> creditsCharged r = 2 \<and> transactionType c = consumption
           \<and> amount c = - 2 \<and> balanceAfter c = 3"
    unfolding run using rc
    by (intro exI [of _ r] exI [of _ c]) (simp add: store_of_def)
  have refused: "createGenerationRequest ?env ?poor ?req
      = ((402, InsufficientCredits 2 1), ?poor)"
    using poor ok unfolding n bal' by simp
  from a p m req run ex refused show ?thesis by (simp add: model_unpriced_def n)
qed

end
